theory Spec2Isabelle
  imports Complex_Main "HOL-Library.List_Lexorder" "HOL-Library.Char_ord"
begin

section \<open>Numbers, coordinates and points\<close>

text \<open>
  JavaScript numbers are modelled as reals with exact arithmetic; NaN, the infinities and
  floating-point rounding error are outside the model. A coordinate is the two-element
  array \<open>[x, y]\<close>, modelled as a pair.
\<close>

type_synonym coord = "real \<times> real"

text \<open>\<open>Math.round\<close>: the nearest integer, a tie going towards plus infinity.\<close>

definition Math_round :: "real \<Rightarrow> real" where
  "Math_round x = of_int \<lfloor>x + 1 / 2\<rfloor>"

text \<open>
  A point object \<open>{coord, toDelete}\<close>. The property \<open>toDelete\<close> is absent until the drag
  callback sets it; an absent property reads as \<open>undefined\<close>, which is falsy, so it is
  \<open>False\<close> here.
\<close>

record point =
  coord :: coord
  toDelete :: bool

text \<open>\<open>Triangulator.createPoint(coord)\<close>: \<open>{ coord: coord.map(Math.round) }\<close>.\<close>

definition createPoint :: "coord \<Rightarrow> point" where
  "createPoint c = \<lparr>coord = (Math_round (fst c), Math_round (snd c)), toDelete = False\<rparr>"

text \<open>
  What a handler can throw: the TypeError of a property access on \<open>undefined\<close>, and the
  \<open>Error\<close> that \<open>clampSize\<close> throws.
\<close>

datatype js_error = TypeError | Error

section \<open>The class Triangulator\<close>

text \<open>The size object \<open>{w, h}\<close> and the object built by \<open>new Triangulator(size, points)\<close>.\<close>

record dims =
  size_w :: real
  size_h :: real

record triangulator =
  tsize :: dims
  points :: "point list"

text \<open>
  \<open>getEffectivePoints()\<close>: the four corners, each made by \<open>createPoint\<close>, concatenated with
  \<open>this.points.filter(p => !p.toDelete)\<close>.
\<close>

definition getEffectivePoints :: "triangulator \<Rightarrow> point list" where
  "getEffectivePoints this =
     (let w = size_w (tsize this);
          h = size_h (tsize this);
          corners = [createPoint (0, 0), createPoint (w, 0),
                     createPoint (0, h), createPoint (w, h)]
      in corners @ filter (\<lambda>p. \<not> toDelete p) (points this))"

text \<open>\<open>addPoint(coord)\<close>: \<open>this.points.push(Triangulator.createPoint(coord))\<close>.\<close>

definition addPoint :: "triangulator \<Rightarrow> coord \<Rightarrow> triangulator" where
  "addPoint this c = this\<lparr>points := points this @ [createPoint c]\<rparr>"

section \<open>The size set when an image has loaded\<close>

text \<open>
  \<open>clampSize(maxW, maxH)\<close> of the class ImageRenderer, for a positive bounding box. The
  \<open>info\<close> holds the natural width and height of the image, non-negative integers; it is
  missing (\<open>None\<close>) until the image has loaded. A division by a natural width or height
  of 0 gives infinity in JavaScript, which is \<open>None\<close> in \<open>shrinkageW\<close> and \<open>shrinkageH\<close>;
  \<open>Math.min\<close> of infinity and a number is the number, and infinity is not below 1.
\<close>

definition Math_min :: "real option \<Rightarrow> real option \<Rightarrow> real option" where
  "Math_min a b =
     (case (a, b) of
        (None, _) \<Rightarrow> b
      | (_, None) \<Rightarrow> a
      | (Some x, Some y) \<Rightarrow> Some (min x y))"

definition clampSize :: "(nat \<times> nat) option \<Rightarrow> real \<Rightarrow> real \<Rightarrow> js_error + real \<times> real" where
  "clampSize info maxW maxH =
     (case info of
        None \<Rightarrow> Inl Error
      | Some (w, h) \<Rightarrow>
          (let shrinkageW = (if w = 0 then None else Some (maxW / real w));
               shrinkageH = (if h = 0 then None else Some (maxH / real h));
               shrinkage = Math_min shrinkageW shrinkageH
           in case shrinkage of
                None \<Rightarrow> Inr (real w, real h)
              | Some s \<Rightarrow> if s < 1 then Inr (real w * s, real h * s) else Inr (real w, real h)))"

text \<open>
  \<open>onLoad\<close> computes \<open>size = clampSize(_maxSize, _maxSize)\<close> of a loaded image and
  assigns \<open>_size.w = size[0]\<close> and \<open>_size.h = size[1]\<close>; \<open>_size\<close> is the size object of
  both triangulators.
\<close>

definition maxSize :: real where
  "maxSize = 500"

definition onLoad_size :: "(nat \<times> nat) option \<Rightarrow> js_error + dims" where
  "onLoad_size info =
     (case clampSize info maxSize maxSize of
        Inl e \<Rightarrow> Inl e
      | Inr sz \<Rightarrow> Inr \<lparr>size_w = fst sz, size_h = snd sz\<rparr>)"

section \<open>Triangles and edges\<close>

text \<open>
  \<open>Delaunay.triangulate\<close> belongs to the library delaunay-fast, loaded by the page and not
  part of the sources. It is a parameter of the model: any function from the coordinate
  array to "a giant array, arranged in triplets, representing triangles by indices into
  the passed array" (the comment in \<open>getTriangles\<close>). It is taken to return normally.
\<close>

type_synonym delaunay = "coord list \<Rightarrow> nat list"

text \<open>Reading \<open>xs[i]\<close> at a number: \<open>undefined\<close> (here \<open>None\<close>) out of range.\<close>

definition js_nth :: "'a list \<Rightarrow> nat \<Rightarrow> 'a option" where
  "js_nth xs i = (if i < length xs then Some (xs ! i) else None)"

text \<open>
  The loop \<open>for(let i = 0; i < triangles.length; i += 3)\<close> reading \<open>triangles[i]\<close>,
  \<open>triangles[i+1]\<close>, \<open>triangles[i+2]\<close>: a last group of one or two indices is padded with
  \<open>undefined\<close>.
\<close>

fun triplets :: "nat list \<Rightarrow> (nat option \<times> nat option \<times> nat option) list" where
  "triplets [] = []"
| "triplets [a] = [(Some a, None, None)]"
| "triplets [a, b] = [(Some a, Some b, None)]"
| "triplets (a # b # c # rest) = (Some a, Some b, Some c) # triplets rest"

text \<open>
  The values that \<open>getTriangles\<close> puts into a triangle: an index (the number \<open>a\<close>), a
  coordinate array (\<open>coords[a]\<close>), or \<open>undefined\<close> (an index read beyond the end of
  \<open>triangles\<close>, or a coordinate read beyond the end of \<open>coords\<close>).
\<close>

datatype vertex = Undefined | Index nat | Coords coord

type_synonym triangle = "vertex \<times> vertex \<times> vertex"

definition index_vertex :: "nat option \<Rightarrow> vertex" where
  "index_vertex a = (case a of None \<Rightarrow> Undefined | Some k \<Rightarrow> Index k)"

definition coord_vertex :: "coord list \<Rightarrow> nat option \<Rightarrow> vertex" where
  "coord_vertex coords a =
     (case a of
        None \<Rightarrow> Undefined
      | Some k \<Rightarrow> (case js_nth coords k of None \<Rightarrow> Undefined | Some c \<Rightarrow> Coords c))"

text \<open>
  \<open>getTriangles(indexes)\<close> pushes \<open>[a, b, c]\<close> when \<open>indexes\<close> is truthy and
  \<open>[coords[a], coords[b], coords[c]]\<close> otherwise; a call without argument is
  \<open>getTriangles False\<close>.
\<close>

definition getTriangles :: "delaunay \<Rightarrow> triangulator \<Rightarrow> bool \<Rightarrow> triangle list" where
  "getTriangles triangulate this indexes =
     (let coords = map coord (getEffectivePoints this);
          triangles = triangulate coords
      in map (\<lambda>(a, b, c).
                if indexes then (index_vertex a, index_vertex b, index_vertex c)
                else (coord_vertex coords a, coord_vertex coords b, coord_vertex coords c))
           (triplets triangles))"

text \<open>
  \<open>getEdges()\<close> calls \<open>this.getTriangles()\<close> without an argument, so \<open>addIfNew\<close> receives
  coordinate arrays. In \<open>p1 < p2\<close> two numbers are compared as numbers and two arrays as
  strings, an array being converted to the string of its elements joined by a comma;
  \<open>undefined\<close> on either side, or a number against an array of two elements, makes the
  comparison false. In \<open>p1 + '_' + p2\<close> every value is converted to its string,
  \<open>undefined\<close> to the text "undefined". The conversion of a number to a string is a
  parameter \<open>ns\<close> (it is not definable on the reals). Strings are compared
  lexicographically by character code.
\<close>

definition array_string :: "(real \<Rightarrow> string) \<Rightarrow> coord \<Rightarrow> string" where
  "array_string ns c = ns (fst c) @ '','' @ ns (snd c)"

definition js_string :: "(real \<Rightarrow> string) \<Rightarrow> vertex \<Rightarrow> string" where
  "js_string ns p =
     (case p of
        Undefined \<Rightarrow> ''undefined''
      | Index k \<Rightarrow> ns (real k)
      | Coords c \<Rightarrow> array_string ns c)"

definition js_less :: "(real \<Rightarrow> string) \<Rightarrow> vertex \<Rightarrow> vertex \<Rightarrow> bool" where
  "js_less ns p1 p2 =
     (case (p1, p2) of
        (Index i, Index j) \<Rightarrow> i < j
      | (Coords c1, Coords c2) \<Rightarrow> array_string ns c1 < array_string ns c2
      | _ \<Rightarrow> False)"

definition edge_key :: "(real \<Rightarrow> string) \<Rightarrow> vertex \<Rightarrow> vertex \<Rightarrow> string" where
  "edge_key ns p1 p2 =
     (if js_less ns p1 p2 then js_string ns p1 @ ''_'' @ js_string ns p2
      else js_string ns p2 @ ''_'' @ js_string ns p1)"

type_synonym edge = "vertex \<times> vertex"

text \<open>The state of the closure: the object \<open>drawn\<close> used as a dictionary, and \<open>edges\<close>.\<close>

definition addIfNew ::
  "(real \<Rightarrow> string) \<Rightarrow> (string \<rightharpoonup> bool) \<times> edge list \<Rightarrow> vertex \<Rightarrow> vertex
     \<Rightarrow> (string \<rightharpoonup> bool) \<times> edge list" where
  "addIfNew ns st p1 p2 =
     (let drawn = fst st; edges = snd st; key = edge_key ns p1 p2
      in if drawn key = Some True then (drawn, edges)
         else (drawn(key \<mapsto> True), edges @ [(p1, p2)]))"

definition getEdges :: "(real \<Rightarrow> string) \<Rightarrow> delaunay \<Rightarrow> triangulator \<Rightarrow> edge list" where
  "getEdges ns triangulate this =
     snd (fold (\<lambda>t st. case t of (t0, t1, t2) \<Rightarrow>
                 addIfNew ns (addIfNew ns (addIfNew ns st t0 t1) t1 t2) t2 t0)
            (getTriangles triangulate this False) (Map.empty, []))"

section \<open>The function warpImage\<close>

text \<open>
  The image argument is one of the two loader canvases. The result is the sequence of
  operations performed on the context of the destination canvas.
\<close>

datatype image = Loader1_canvas | Loader2_canvas

datatype canvas_op =
    ClearRect real real real real
  | DrawImageTriangle image "coord option" "coord option" "coord option"
      "coord option" "coord option" "coord option"

text \<open>
  Modelled from the spec: the interpolation of one number, the scalar case of \<open>um.lerp\<close>
  (\<open>ABOUtils.Math.lerp\<close>, of the library abo-utils that the page loads; its code is not
  among the sources). The specification gives it as \<open>co1 + t*(co2 - co1)\<close>.
\<close>

definition lerp_number :: "real \<Rightarrow> real \<Rightarrow> real \<Rightarrow> real" where
  "lerp_number a b t = a + t * (b - a)"

text \<open>
  Modelled from the spec: \<open>um.lerp\<close> on two coordinate arrays (library abo-utils, not
  among the sources), by the specification "the per-coordinate linear interpolation
  \<open>co1 + t*(co2 - co1)\<close>": the coordinates are paired by position. The specification
  says nothing of arrays of different lengths; here the pairs end with the shorter one.
  Of the result on such arrays, the statements below use only that its length is the same
  for every \<open>t\<close>.
\<close>

definition um_lerp :: "coord list \<Rightarrow> coord list \<Rightarrow> real \<Rightarrow> coord list" where
  "um_lerp co1 co2 t =
     map2 (\<lambda>c1 c2. (lerp_number (fst c1) (fst c2) t, lerp_number (snd c1) (snd c2) t)) co1 co2"

text \<open>
  The destination coordinates: \<open>co2\<close> after \<open>if(lerpT || (lerpT === 0))\<close>. An omitted
  \<open>lerpT\<close> is \<open>None\<close>.
\<close>

definition warpImage_co2 :: "triangulator \<Rightarrow> triangulator \<Rightarrow> real option \<Rightarrow> coord list" where
  "warpImage_co2 triSource triTarget lerpT =
     (let co1 = map coord (getEffectivePoints triSource);
          co2 = map coord (getEffectivePoints triTarget)
      in case lerpT of
           None \<Rightarrow> co2
         | Some t \<Rightarrow> if t \<noteq> 0 \<or> t = 0 then um_lerp co1 co2 t else co2)"

text \<open>
  Reading \<open>co[i]\<close> where \<open>i\<close> is an entry of a triangle: the element at an index in range,
  and \<open>undefined\<close> for an index out of range, for \<open>undefined\<close> and for an array (whose
  string names no property of \<open>co\<close>).
\<close>

definition js_lookup :: "'a list \<Rightarrow> vertex \<Rightarrow> 'a option" where
  "js_lookup xs i = (case i of Index k \<Rightarrow> js_nth xs k | _ \<Rightarrow> None)"

text \<open>
  \<open>warpImage\<close>: \<open>tri2\<close> is computed and never read. The corners handed to
  \<open>uc.drawImageTriangle\<close> are \<open>co1[i]\<close> and \<open>co2[i]\<close> for the three entries \<open>i\<close> of each
  triangle of \<open>tri1\<close>.
\<close>

definition warpImage ::
  "delaunay \<Rightarrow> image \<Rightarrow> triangulator \<Rightarrow> triangulator \<Rightarrow> real option \<Rightarrow> canvas_op list" where
  "warpImage triangulate img triSource triTarget lerpT =
     (let w = size_w (tsize triTarget);
          h = size_h (tsize triTarget);
          tri1 = getTriangles triangulate triSource True;
          tri2 = getTriangles triangulate triTarget True;
          co1 = map coord (getEffectivePoints triSource);
          co2 = warpImage_co2 triSource triTarget lerpT
      in ClearRect 0 0 w h #
         map (\<lambda>(i0, i1, i2).
                DrawImageTriangle img
                  (js_lookup co1 i0) (js_lookup co1 i1) (js_lookup co1 i2)
                  (js_lookup co2 i0) (js_lookup co2 i1) (js_lookup co2 i2))
           tri1)"

section \<open>The drag callback of the triangulator component\<close>

definition deleteThreshold :: real where
  "deleteThreshold = 20"

text \<open>
  Modelled from the spec: \<open>um.clamp\<close> (\<open>ABOUtils.Math.clamp\<close>, library abo-utils, not
  among the sources). The specification says the coordinate is "clamped to
  \<open>[0,width] \<times> [0,height]\<close>".
\<close>

definition um_clamp :: "real \<Rightarrow> real \<Rightarrow> real \<Rightarrow> real" where
  "um_clamp x lo hi = (if x < lo then lo else if hi < x then hi else x)"

text \<open>\<open>points[index]\<close> for an index parsed from the node's \<open>data-index\<close>.\<close>

definition js_get :: "'a list \<Rightarrow> int \<Rightarrow> 'a option" where
  "js_get xs i = (if 0 \<le> i \<and> i < int (length xs) then Some (xs ! nat i) else None)"

text \<open>
  The callback dispatches the event \<open>dragging\<close> on the node; the node is the
  \<open>drag-node\<close> rendered for \<open>points[index]\<close> with \<open>v-model="p.coord"\<close>, whose handler
  \<open>onDragging\<close> emits the position, so that the point's \<open>coord\<close> is replaced by it. No
  node is rendered for an index outside the list.
\<close>

definition onDragging :: "point list \<Rightarrow> int \<Rightarrow> coord \<Rightarrow> point list" where
  "onDragging ps index pos =
     (case js_get ps index of
        None \<Rightarrow> ps
      | Some p \<Rightarrow> ps[nat index := p\<lparr>coord := pos\<rparr>])"

text \<open>
  The \<open>callback\<close> given to \<open>dragTracker\<close>. Setting \<open>toDelete\<close> on an \<open>undefined\<close> point
  throws a TypeError.
\<close>

definition dragCallback :: "triangulator \<Rightarrow> int \<Rightarrow> coord \<Rightarrow> js_error + triangulator" where
  "dragCallback model index pos =
     (let x = fst pos;
          y = snd pos;
          point = js_get (points model) index
      in if y < - deleteThreshold then
           (case point of
              None \<Rightarrow> Inl TypeError
            | Some p \<Rightarrow>
                Inr (model\<lparr>points :=
                       onDragging ((points model)[nat index := p\<lparr>toDelete := True\<rparr>]) index pos\<rparr>))
         else
           (let w = size_w (tsize model);
                h = size_h (tsize model);
                normPos = (um_clamp x 0 w, um_clamp y 0 h)
            in Inr (model\<lparr>points := onDragging (points model) index normPos\<rparr>)))"

section \<open>The root component\<close>

text \<open>
  The global \<open>_state\<close>, and the data of the root Vue instance: \<open>state\<close> and \<open>morphAnim\<close>
  (\<open>null\<close> is \<open>None\<close>). An animation is known by its handle. The record also carries what
  the host keeps: the animations it is still scheduling, and the next fresh handle.
\<close>

record global_state =
  tri1 :: triangulator
  tri2 :: triangulator
  selectedIndex :: int

type_synonym handle = nat

record app =
  state :: global_state
  morphAnim :: "handle option"
  running :: "handle list"
  next_handle :: handle

text \<open>
  Modelled from the spec: \<open>ud.animate\<close> (\<open>ABOUtils.DOM.animate\<close>, library abo-utils, not
  among the sources). By the specification, \<open>start\<close> "begins a running animation" driven
  by the host's frame scheduling; it returns the object that \<open>warp\<close> stores in
  \<open>morphAnim\<close>. Here the host schedules one more animation, under a fresh handle.
\<close>

definition ud_animate :: "app \<Rightarrow> handle \<times> app" where
  "ud_animate this =
     (next_handle this,
      this\<lparr>running := running this @ [next_handle this],
           next_handle := Suc (next_handle this)\<rparr>)"

text \<open>
  Modelled from the spec: the \<open>cancel()\<close> of the object returned by \<open>ud.animate\<close> (library
  abo-utils, not among the sources). By the specification a cancelled animation "simply
  stops scheduling further ticks", and \<open>cancel()\<close> "is idempotent and safe to call when
  already \<open>Idle\<close>".
\<close>

definition cancel :: "handle \<Rightarrow> app \<Rightarrow> app" where
  "cancel a this = this\<lparr>running := removeAll a (running this)\<rparr>"

text \<open>
  Modelled from the spec: the natural end of an animation inside \<open>ud.animate\<close> (library
  abo-utils, not among the sources). By the specification an animation continues "until
  \<open>t\<close> reaches 1 or \<open>cancel()\<close> is called" and must "stop scheduling further ticks after
  that".
\<close>

definition animation_ended :: "handle \<Rightarrow> app \<Rightarrow> app" where
  "animation_ended a this = this\<lparr>running := removeAll a (running this)\<rparr>"

text \<open>The methods \<open>clear\<close>, \<open>stopAnim\<close> and \<open>warp\<close>.\<close>

definition clear :: "app \<Rightarrow> app" where
  "clear this =
     this\<lparr>state := (state this)
       \<lparr>tri1 := (tri1 (state this))\<lparr>points := []\<rparr>,
        tri2 := (tri2 (state this))\<lparr>points := []\<rparr>\<rparr>\<rparr>"

definition stopAnim :: "app \<Rightarrow> app" where
  "stopAnim this = (case morphAnim this of None \<Rightarrow> this | Some a \<Rightarrow> cancel a this)"

definition warp :: "app \<Rightarrow> app" where
  "warp this =
     (let this1 = stopAnim this;
          started = ud_animate this1
      in (snd started)\<lparr>morphAnim := Some (fst started)\<rparr>)"



text \<open>
  \<open>onAdded\<close>. The \<open>while\<close> loop is the function \<open>sync_loop\<close> on the two point arrays; it
  appends to the target a point created from the coordinate found in the source at the
  target's length.
\<close>

function sync_loop :: "point list \<Rightarrow> point list \<Rightarrow> point list" where
  "sync_loop sourcePoints targetPoints =
     (if length targetPoints < length sourcePoints
      then sync_loop sourcePoints
             (targetPoints @ [createPoint (coord (sourcePoints ! length targetPoints))])
      else targetPoints)"
  by pat_completeness auto
termination
  by (relation "measure (\<lambda>(sourcePoints, targetPoints). length sourcePoints - length targetPoints)")
     auto

declare sync_loop.simps [simp del]

definition onAdded :: "app \<Rightarrow> app" where
  "onAdded this =
     (let a = tri1 (state this);
          b = tri2 (state this)
      in if length (points a) > length (points b)
         then this\<lparr>state := (state this)\<lparr>tri2 := b\<lparr>points := sync_loop (points a) (points b)\<rparr>\<rparr>\<rparr>
         else this\<lparr>state := (state this)\<lparr>tri1 := a\<lparr>points := sync_loop (points b) (points a)\<rparr>\<rparr>\<rparr>)"

definition onSelected :: "int \<Rightarrow> app \<Rightarrow> app" where
  "onSelected index this = (stopAnim this)\<lparr>state := (state (stopAnim this))\<lparr>selectedIndex := index\<rparr>\<rparr>"

text \<open>
  \<open>this.$delete(array, index)\<close> is \<open>Vue.delete\<close>: for a valid array index (a non-negative
  integer) it calls \<open>array.splice(index, 1)\<close>, which removes nothing at or beyond the
  length; for any other key the array has no such property and nothing is done. It
  never throws.
\<close>

definition splice1 :: "'a list \<Rightarrow> nat \<Rightarrow> 'a list" where
  "splice1 xs k = take k xs @ drop (Suc k) xs"

definition vue_delete :: "'a list \<Rightarrow> int \<Rightarrow> 'a list" where
  "vue_delete xs key = (if 0 \<le> key then splice1 xs (nat key) else xs)"

definition onDeleted :: "int \<Rightarrow> app \<Rightarrow> app" where
  "onDeleted index this =
     this\<lparr>state := (state this)
       \<lparr>tri1 := (tri1 (state this))\<lparr>points := vue_delete (points (tri1 (state this))) index\<rparr>,
        tri2 := (tri2 (state this))\<lparr>points := vue_delete (points (tri2 (state this))) index\<rparr>\<rparr>\<rparr>"

text \<open>
  The two triangulator components have \<open>state.tri1\<close> and \<open>state.tri2\<close> as their
  \<open>model\<close>. The method \<open>addPoint(e)\<close> of a component, for a click on the bare drawing
  area: \<open>this.model.addPoint(coord)\<close>, then the event \<open>added\<close> (handled by \<open>onAdded\<close>),
  then \<open>select\<close> of the last index (handled by \<open>onSelected\<close>).
\<close>

datatype which = Image1 | Image2

definition model_of :: "which \<Rightarrow> app \<Rightarrow> triangulator" where
  "model_of m this = (case m of Image1 \<Rightarrow> tri1 (state this) | Image2 \<Rightarrow> tri2 (state this))"

definition component_addPoint :: "which \<Rightarrow> coord \<Rightarrow> app \<Rightarrow> app" where
  "component_addPoint m c this =
     (let st = state this;
          this1 = (case m of
                     Image1 \<Rightarrow> this\<lparr>state := st\<lparr>tri1 := addPoint (tri1 st) c\<rparr>\<rparr>
                   | Image2 \<Rightarrow> this\<lparr>state := st\<lparr>tri2 := addPoint (tri2 st) c\<rparr>\<rparr>);
          this2 = onAdded this1
      in onSelected (int (length (points (model_of m this2))) - 1) this2)"

text \<open>
  \<open>callbackDragStart\<close> selects the point. \<open>callbackDragEnd\<close> reads
  \<open>that.points[index].toDelete\<close>, a TypeError when there is no such point, and calls
  \<open>deletePoint\<close>, which emits \<open>deleted\<close> (handled by \<open>onDeleted\<close>).
\<close>

definition callbackDragStart :: "int \<Rightarrow> app \<Rightarrow> app" where
  "callbackDragStart index this = onSelected index this"

definition callbackDragEnd :: "which \<Rightarrow> int \<Rightarrow> app \<Rightarrow> js_error + app" where
  "callbackDragEnd m index this =
     (let point = js_get (points (model_of m this)) index
      in case point of
           None \<Rightarrow> Inl TypeError
         | Some p \<Rightarrow> if toDelete p then Inr (onDeleted index this) else Inr this)"

text \<open>
  The page at start, for a size object shared by the two triangulators and two point
  lists: no selection, \<open>morphAnim: null\<close> and no animation scheduled. The script starts
  with the size 400 by 400 and two preset lists of 34 points (object literals with a
  \<open>coord\<close> only).
\<close>

definition preset :: "coord list \<Rightarrow> point list" where
  "preset cs = map (\<lambda>c. \<lparr>coord = c, toDelete = False\<rparr>) cs"

definition start_app :: "dims \<Rightarrow> point list \<Rightarrow> point list \<Rightarrow> app" where
  "start_app sz ps1 ps2 =
     \<lparr>state = \<lparr>tri1 = \<lparr>tsize = sz, points = ps1\<rparr>,
               tri2 = \<lparr>tsize = sz, points = ps2\<rparr>,
               selectedIndex = - 1\<rparr>,
      morphAnim = None, running = [], next_handle = 0\<rparr>"

definition initial_app :: app where
  "initial_app =
     start_app \<lparr>size_w = 400, size_h = 400\<rparr>
      (preset
      [(53, 77), (106, 35), (152, 38), (238, 56), (282, 67), (312, 123), (271, 122),
       (251, 155), (211, 276), (216, 318), (191, 403), (153, 459), (92, 90), (101, 117),
       (78, 211), (56, 222), (0, 302), (143, 95), (229, 111), (175, 169), (115, 158),
       (118, 212), (207, 225), (229, 177), (59, 113), (287, 157), (87, 153), (247, 188),
       (86, 247), (177, 324), (122, 384), (80, 459), (139, 110), (228, 125)])
      (preset
      [(99, 13), (129, 35), (156, 69), (222, 73), (261, 33), (287, 31), (274, 107),
       (264, 146), (182, 263), (180, 306), (120, 385), (68, 459), (99, 87), (98, 119),
       (78, 135), (44, 142), (0, 150), (150, 127), (211, 131), (175, 169), (135, 167),
       (136, 195), (210, 200), (220, 171), (91, 37), (288, 64), (91, 126), (246, 188),
       (97, 181), (150, 248), (94, 307), (51, 459), (135, 137), (223, 142)])"

text \<open>
  The operations a user or the host can perform on the page: a click that adds a point,
  the event \<open>deleted\<close>, the three callbacks of a drag, the buttons Clear and Morph, a stop
  of the animation (as on a change of image), a selection, and the end of an animation.
  \<open>trace\<close> gives the states passed through by a sequence of them.
\<close>

datatype event =
    AddPoint which coord
  | DeletePoint int
  | DragStart int
  | Drag which int coord
  | DragEnd which int
  | Clear
  | Morph
  | StopAnim
  | Selected int
  | AnimationEnded handle

definition with_model :: "which \<Rightarrow> triangulator \<Rightarrow> app \<Rightarrow> app" where
  "with_model m model this =
     (case m of
        Image1 \<Rightarrow> this\<lparr>state := (state this)\<lparr>tri1 := model\<rparr>\<rparr>
      | Image2 \<Rightarrow> this\<lparr>state := (state this)\<lparr>tri2 := model\<rparr>\<rparr>)"

text \<open>
  A drag callback that throws has changed nothing before it throws; the page stays as it
  was.
\<close>

fun step :: "event \<Rightarrow> app \<Rightarrow> app" where
  "step (AddPoint m c) this = component_addPoint m c this"
| "step (DeletePoint index) this = onDeleted index this"
| "step (DragStart index) this = callbackDragStart index this"
| "step (Drag m index pos) this =
     (case dragCallback (model_of m this) index pos of
        Inl e \<Rightarrow> this
      | Inr model \<Rightarrow> with_model m model this)"
| "step (DragEnd m index) this =
     (case callbackDragEnd m index this of Inl e \<Rightarrow> this | Inr this' \<Rightarrow> this')"
| "step Clear this = clear this"
| "step Morph this = warp this"
| "step StopAnim this = stopAnim this"
| "step (Selected index) this = onSelected index this"
| "step (AnimationEnded a) this = animation_ended a this"

fun trace :: "event list \<Rightarrow> app \<Rightarrow> app list" where
  "trace [] this = []"
| "trace (e # es) this = step e this # trace es (step e this)"

section \<open>Properties and example inputs\<close>

text \<open>The two meshes of the pair have point lists of equal length.\<close>

definition balanced :: "app \<Rightarrow> bool" where
  "balanced this = (length (points (tri1 (state this))) = length (points (tri2 (state this))))"

text \<open>
  Either no animation is scheduled, or the only one scheduled is the one \<open>morphAnim\<close>
  holds.
\<close>

definition idle_or_single :: "app \<Rightarrow> bool" where
  "idle_or_single this =
     (case morphAnim this of
        None \<Rightarrow> running this = []
      | Some a \<Rightarrow> running this = [] \<or> running this = [a])"

text \<open>
  The state of \<open>getEdges\<close> is consistent: the keys set in \<open>drawn\<close> are the keys of the
  edges collected so far, and no two collected edges have the same key.
\<close>

definition drawn_matches :: "(real \<Rightarrow> string) \<Rightarrow> (string \<rightharpoonup> bool) \<times> edge list \<Rightarrow> bool" where
  "drawn_matches ns st =
     ((\<forall>k. (fst st k = Some True) = (k \<in> set (map (\<lambda>e. edge_key ns (fst e) (snd e)) (snd st))))
      \<and> distinct (map (\<lambda>e. edge_key ns (fst e) (snd e)) (snd st)))"

text \<open>The three sides of every triangle, in the order in which \<open>getEdges\<close> visits them.\<close>

definition triangle_sides :: "('v \<times> 'v \<times> 'v) list \<Rightarrow> ('v \<times> 'v) list" where
  "triangle_sides ts = concat (map (\<lambda>(t0, t1, t2). [(t0, t1), (t1, t2), (t2, t0)]) ts)"

text \<open>
  The edge list in the specification's words, for comparison with \<open>getEdges\<close>: the sides
  of the index triangles as pairs of indices (smaller index, larger index), every pair
  once.
\<close>

definition spec_edges :: "triangle list \<Rightarrow> edge list" where
  "spec_edges ts =
     remdups (concat (map (\<lambda>t. case t of
         (Index i, Index j, Index k) \<Rightarrow>
           [(Index (min i j), Index (max i j)), (Index (min j k), Index (max j k)),
            (Index (min k i), Index (max k i))]
       | _ \<Rightarrow> []) ts))"

text \<open>An edge that is a pair of indices, and a vertex that is not an index.\<close>

definition index_pair :: "edge \<Rightarrow> bool" where
  "index_pair e = (case e of (Index i, Index j) \<Rightarrow> True | _ \<Rightarrow> False)"

definition no_index :: "vertex \<Rightarrow> bool" where
  "no_index v = (case v of Index i \<Rightarrow> False | _ \<Rightarrow> True)"

text \<open>
  Example inputs. On the four corners of a square of side 400 followed by a fifth point
  on the corner \<open>(0,0)\<close>, delaunay-fast answers the two triangles \<open>2,3,1\<close> and \<open>0,2,1\<close> (it
  leaves the repeated point out). \<open>sample_triangulate\<close> and \<open>other_triangulate\<close> both give
  this answer there; on every other array they differ from each other.
  \<open>integer_string\<close> is the conversion of a number to a string on integer-valued numbers:
  decimal digits after an optional minus sign.
\<close>

definition sample_triangulate :: delaunay where
  "sample_triangulate coords =
     (if coords = [(0, 0), (400, 0), (0, 400), (400, 400), (0, 0)] then [2, 3, 1, 0, 2, 1]
      else [])"

definition other_triangulate :: delaunay where
  "other_triangulate coords =
     (if coords = [(0, 0), (400, 0), (0, 400), (400, 400), (0, 0)] then [2, 3, 1, 0, 2, 1]
      else [0, 1, 2])"

definition digit_char :: "nat \<Rightarrow> char" where
  "digit_char d = ''0123456789'' ! d"

fun nat_string :: "nat \<Rightarrow> string" where
  "nat_string n =
     (if n < 10 then [digit_char n] else nat_string (n div 10) @ [digit_char (n mod 10)])"

declare nat_string.simps [simp del]

definition integer_string :: "real \<Rightarrow> string" where
  "integer_string x =
     (if x < 0 then CHR ''-'' # nat_string (nat \<lfloor>- x\<rfloor>) else nat_string (nat \<lfloor>x\<rfloor>))"

text \<open>
  Example pages: a pair with three points in each mesh, a pair whose size is not
  integral (the size set for an image of 1000 by 667 pixels), and two meshes with a single
  point.
\<close>

definition ex_pair :: app where
  "ex_pair = start_app \<lparr>size_w = 400, size_h = 400\<rparr>
     (preset [(1, 1), (2, 2), (3, 3)]) (preset [(10, 10), (20, 20), (30, 30)])"

definition fractional_app :: app where
  "fractional_app = start_app \<lparr>size_w = 500, size_h = 667 / 2\<rparr>
     (preset [(53, 77)]) (preset [(99, 13)])"

definition one_point_mesh :: triangulator where
  "one_point_mesh = \<lparr>tsize = \<lparr>size_w = 400, size_h = 400\<rparr>, points = preset [(200, 100)]\<rparr>"

definition other_point_mesh :: triangulator where
  "other_point_mesh = \<lparr>tsize = \<lparr>size_w = 400, size_h = 400\<rparr>, points = preset [(100, 300)]\<rparr>"

text \<open>
  A mesh whose only point lies on the corner \<open>(0,0)\<close> (where a drag beyond the top left
  corner is clamped to), and a mesh of another size with one point.
\<close>

definition corner_point_mesh :: triangulator where
  "corner_point_mesh = \<lparr>tsize = \<lparr>size_w = 400, size_h = 400\<rparr>, points = preset [(0, 0)]\<rparr>"

definition small_mesh :: triangulator where
  "small_mesh = \<lparr>tsize = \<lparr>size_w = 200, size_h = 300\<rparr>, points = preset [(10, 20)]\<rparr>"

text \<open>
  A mesh with one point that is marked for deletion (it is being dragged above the
  canvas).
\<close>

definition marked_point_mesh :: triangulator where
  "marked_point_mesh =
     \<lparr>tsize = \<lparr>size_w = 400, size_h = 400\<rparr>,
      points = [\<lparr>coord = (100, -30), toDelete = True\<rparr>]\<rparr>"



section \<open>Rounding\<close>

lemma Math_round_zero: "Math_round 0 = 0"
  by (simp add: Math_round_def)

lemma Math_round_of_int: "Math_round (of_int k) = of_int k"
proof -
  have "\<lfloor>(of_int k :: real) + 1 / 2\<rfloor> = k"
    by linarith
  then show ?thesis
    by (simp add: Math_round_def)
qed

lemma Math_round_Ints: "x \<in> \<int> \<Longrightarrow> Math_round x = x"
  by (auto elim!: Ints_cases simp: Math_round_of_int)

lemma Math_round_idem: "Math_round (Math_round x) = Math_round x"
  unfolding Math_round_def [of x] by (rule Math_round_of_int)

lemma createPoint_idem: "createPoint (coord (createPoint c)) = createPoint c"
  by (simp add: createPoint_def Math_round_idem)

section \<open>The effective point list\<close>

lemma getEffectivePoints_eq:
  "getEffectivePoints this =
     createPoint (0, 0) # createPoint (size_w (tsize this), 0) #
     createPoint (0, size_h (tsize this)) #
     createPoint (size_w (tsize this), size_h (tsize this)) #
     filter (\<lambda>p. \<not> toDelete p) (points this)"
  by (simp add: getEffectivePoints_def Let_def)

text \<open>
  Claim C6, as the code has it. The effective point list begins with four corner points
  whose coordinates went through \<open>createPoint\<close> and are therefore rounded to the nearest
  integer: \<open>(0,0)\<close>, \<open>(round w, 0)\<close>, \<open>(0, round h)\<close>, \<open>(round w, round h)\<close>; none of them
  is marked for deletion. They are followed by the points not marked for deletion, in
  the order of the point list. When \<open>w\<close> and \<open>h\<close> are integers the four points are the
  exact corners of the domain.
\<close>

theorem getEffectivePoints_rounded_corners:
  "map coord (take 4 (getEffectivePoints this)) =
     [(0, 0), (Math_round (size_w (tsize this)), 0),
      (0, Math_round (size_h (tsize this))),
      (Math_round (size_w (tsize this)), Math_round (size_h (tsize this)))]
   \<and> map toDelete (take 4 (getEffectivePoints this)) = [False, False, False, False]
   \<and> drop 4 (getEffectivePoints this) = filter (\<lambda>p. \<not> toDelete p) (points this)
   \<and> (size_w (tsize this) \<in> \<int> \<and> size_h (tsize this) \<in> \<int> \<longrightarrow>
        map coord (take 4 (getEffectivePoints this)) =
          [(0, 0), (size_w (tsize this), 0), (0, size_h (tsize this)),
           (size_w (tsize this), size_h (tsize this))])"
  by (simp add: getEffectivePoints_eq createPoint_def Math_round_zero Math_round_Ints)

theorem getEffectivePoints_rounded_corners_witness:
  "(400 :: real) \<in> \<int>
   \<and> map coord (take 4 (getEffectivePoints
         \<lparr>tsize = \<lparr>size_w = 400, size_h = 400\<rparr>,
          points = [\<lparr>coord = (53, 77), toDelete = False\<rparr>,
                    \<lparr>coord = (106, -35), toDelete = True\<rparr>,
                    \<lparr>coord = (152, 38), toDelete = False\<rparr>]\<rparr>)) =
       [(0, 0), (400, 0), (0, 400), (400, 400)]
   \<and> drop 4 (getEffectivePoints
         \<lparr>tsize = \<lparr>size_w = 400, size_h = 400\<rparr>,
          points = [\<lparr>coord = (53, 77), toDelete = False\<rparr>,
                    \<lparr>coord = (106, -35), toDelete = True\<rparr>,
                    \<lparr>coord = (152, 38), toDelete = False\<rparr>]\<rparr>) =
       [\<lparr>coord = (53, 77), toDelete = False\<rparr>, \<lparr>coord = (152, 38), toDelete = False\<rparr>]"
  using getEffectivePoints_rounded_corners
    [of "\<lparr>tsize = \<lparr>size_w = 400, size_h = 400\<rparr>,
          points = [\<lparr>coord = (53, 77), toDelete = False\<rparr>,
                    \<lparr>coord = (106, -35), toDelete = True\<rparr>,
                    \<lparr>coord = (152, 38), toDelete = False\<rparr>]\<rparr>"]
  by (simp add: getEffectivePoints_eq createPoint_def Math_round_def)

text \<open>
  The claim as the specification words it, with the exact corners \<open>(w,0)\<close>, \<open>(0,h)\<close>,
  \<open>(w,h)\<close>, fails for a size that is not integral. An image of 640 by 427 pixels gets
  the size 500 by 333.59375 when it has loaded, and the corners are built at height 334.
\<close>

theorem getEffectivePoints_exact_corners_counterexample:
  "onLoad_size (Some (640, 427)) = Inr \<lparr>size_w = 500, size_h = 10675 / 32\<rparr>
   \<and> map coord (take 4 (getEffectivePoints
       \<lparr>tsize = \<lparr>size_w = 500, size_h = 10675 / 32\<rparr>, points = []\<rparr>)) =
     [(0, 0), (500, 0), (0, 334), (500, 334)]
   \<and> map coord (take 4 (getEffectivePoints
       \<lparr>tsize = \<lparr>size_w = 500, size_h = 10675 / 32\<rparr>, points = []\<rparr>)) \<noteq>
     [(0, 0), (500, 0), (0, 10675 / 32), (500, 10675 / 32)]"
  by (simp add: getEffectivePoints_eq createPoint_def Math_round_def onLoad_size_def
      clampSize_def Math_min_def maxSize_def)

section \<open>Clearing\<close>

lemma model_of_clear:
  "points (model_of m (clear this)) = [] \<and> tsize (model_of m (clear this)) = tsize (model_of m this)"
  by (cases m) (simp_all add: model_of_def clear_def)

lemma coords_of_empty_mesh:
  "points tr = [] \<Longrightarrow>
   map coord (getEffectivePoints tr) =
     [(0, 0), (Math_round (size_w (tsize tr)), 0), (0, Math_round (size_h (tsize tr))),
      (Math_round (size_w (tsize tr)), Math_round (size_h (tsize tr)))]"
  by (simp add: getEffectivePoints_eq createPoint_def Math_round_zero)

text \<open>
  Claim C10, as the code has it. \<open>clear\<close> sets the point lists of both meshes to the
  empty list in one step and leaves the sizes alone; afterwards the two lists have equal
  length (both 0), and the effective point list of each mesh consists of the four corner
  points only, with coordinates rounded to the nearest integer. When the width and the
  height are integers these are the exact corners of the domain.
\<close>

theorem clear_empties_both_meshes:
  "points (model_of m (clear this)) = []
   \<and> balanced (clear this)
   \<and> tsize (model_of m (clear this)) = tsize (model_of m this)
   \<and> map coord (getEffectivePoints (model_of m (clear this))) =
       [(0, 0), (Math_round (size_w (tsize (model_of m this))), 0),
        (0, Math_round (size_h (tsize (model_of m this)))),
        (Math_round (size_w (tsize (model_of m this))),
         Math_round (size_h (tsize (model_of m this))))]
   \<and> (size_w (tsize (model_of m this)) \<in> \<int> \<and> size_h (tsize (model_of m this)) \<in> \<int> \<longrightarrow>
        map coord (getEffectivePoints (model_of m (clear this))) =
          [(0, 0), (size_w (tsize (model_of m this)), 0),
           (0, size_h (tsize (model_of m this))),
           (size_w (tsize (model_of m this)), size_h (tsize (model_of m this)))])"
proof -
  have b: "balanced (clear this)"
    by (simp add: balanced_def clear_def)
  have c: "map coord (getEffectivePoints (model_of m (clear this))) =
       [(0, 0), (Math_round (size_w (tsize (model_of m this))), 0),
        (0, Math_round (size_h (tsize (model_of m this)))),
        (Math_round (size_w (tsize (model_of m this))),
         Math_round (size_h (tsize (model_of m this))))]"
    using coords_of_empty_mesh [of "model_of m (clear this)"] by (simp add: model_of_clear)
  show ?thesis
    using b c by (simp add: model_of_clear Math_round_Ints)
qed

theorem clear_empties_both_meshes_witness:
  "(400 :: real) \<in> \<int>
   \<and> points (model_of Image2 (clear initial_app)) = []
   \<and> balanced (clear initial_app)
   \<and> map coord (getEffectivePoints (model_of Image2 (clear initial_app))) =
       [(0, 0), (400, 0), (0, 400), (400, 400)]"
proof -
  have s: "tsize (model_of Image2 initial_app) = \<lparr>size_w = 400, size_h = 400\<rparr>"
    by (simp add: initial_app_def start_app_def model_of_def)
  show ?thesis
    using clear_empties_both_meshes [of Image2 initial_app] by (simp add: s Math_round_def)
qed

text \<open>
  With the exact corners, as the claim is worded, it fails for the size 500 by 333.5 that
  an image of 1000 by 667 pixels gets: after \<open>clear\<close> the effective points lie at height
  334.
\<close>

theorem clear_exact_corners_counterexample:
  "onLoad_size (Some (1000, 667)) = Inr (tsize (model_of Image1 fractional_app))
   \<and> map coord (getEffectivePoints (model_of Image1 (clear fractional_app))) =
     [(0, 0), (500, 0), (0, 334), (500, 334)]
   \<and> map coord (getEffectivePoints (model_of Image1 (clear fractional_app))) \<noteq>
     [(0, 0), (500, 0), (0, 667 / 2), (500, 667 / 2)]"
  by (simp add: fractional_app_def start_app_def preset_def clear_def model_of_def
      getEffectivePoints_eq createPoint_def Math_round_def onLoad_size_def clampSize_def
      Math_min_def maxSize_def)

section \<open>Keeping the two point lists in step\<close>

lemma sync_loop_eq:
  "sync_loop s t = t @ map (\<lambda>p. createPoint (coord p)) (drop (length t) s)"
proof (induction s t rule: sync_loop.induct)
  case (1 sourcePoints targetPoints)
  show ?case
  proof (cases "length targetPoints < length sourcePoints")
    case True
    have d: "drop (length targetPoints) sourcePoints =
        sourcePoints ! length targetPoints # drop (Suc (length targetPoints)) sourcePoints"
      using True by (simp add: Cons_nth_drop_Suc)
    show ?thesis
      using True "1.IH" [OF True] d
      by (subst sync_loop.simps) simp
  next
    case False
    then show ?thesis
      by (subst sync_loop.simps) simp
  qed
qed

lemma length_sync_loop: "length (sync_loop s t) = max (length s) (length t)"
  by (simp add: sync_loop_eq)

lemma balanced_onAdded: "balanced (onAdded this)"
  by (simp add: balanced_def onAdded_def Let_def length_sync_loop)

lemma length_vue_delete:
  "length (vue_delete xs i) = (if 0 \<le> i \<and> i < int (length xs) then length xs - 1 else length xs)"
  by (auto simp: vue_delete_def splice1_def)

lemma vue_delete_out_of_range: "i < 0 \<or> int (length xs) \<le> i \<Longrightarrow> vue_delete xs i = xs"
  by (auto simp: vue_delete_def splice1_def)

lemma vue_delete_in_range:
  "0 \<le> i \<Longrightarrow> i < int (length xs) \<Longrightarrow> vue_delete xs i = take (nat i) xs @ drop (nat i + 1) xs"
  by (simp add: vue_delete_def splice1_def)

lemma balanced_onDeleted: "balanced this \<Longrightarrow> balanced (onDeleted i this)"
  by (simp add: balanced_def onDeleted_def length_vue_delete)

lemma state_stopAnim: "state (stopAnim this) = state this"
  by (simp add: stopAnim_def cancel_def split: option.splits)

lemma balanced_onSelected: "balanced (onSelected i this) = balanced this"
  by (simp add: balanced_def onSelected_def state_stopAnim)

lemma length_onDragging: "length (onDragging ps i c) = length ps"
  by (simp add: onDragging_def split: option.splits)

lemma length_dragCallback:
  "dragCallback model i pos = Inr model' \<Longrightarrow> length (points model') = length (points model)"
  by (auto simp: dragCallback_def Let_def length_onDragging split: if_splits option.splits)

lemma balanced_drag:
  assumes "balanced this"
  shows "balanced (case dragCallback (model_of m this) i pos of
                     Inl e \<Rightarrow> this | Inr model \<Rightarrow> with_model m model this)"
proof (cases "dragCallback (model_of m this) i pos")
  case (Inl e)
  with assms show ?thesis by simp
next
  case (Inr model)
  from length_dragCallback [OF Inr] assms have "balanced (with_model m model this)"
    by (cases m) (simp_all add: with_model_def model_of_def balanced_def)
  then show ?thesis
    by (simp add: Inr)
qed

lemma balanced_dragEnd:
  assumes "balanced this"
  shows "balanced (case callbackDragEnd m i this of Inl e \<Rightarrow> this | Inr this' \<Rightarrow> this')"
  using assms
  by (auto simp: callbackDragEnd_def Let_def balanced_onDeleted split: option.splits)

lemma balanced_step: "balanced this \<Longrightarrow> balanced (step e this)"
  by (cases e)
    (simp_all add: component_addPoint_def Let_def balanced_onSelected balanced_onAdded
      balanced_onDeleted balanced_drag balanced_dragEnd callbackDragStart_def,
     simp_all add: balanced_def clear_def warp_def Let_def ud_animate_def state_stopAnim
      animation_ended_def)

lemma balanced_trace: "balanced this \<Longrightarrow> list_all balanced (trace es this)"
  by (induction es arbitrary: this) (simp_all add: balanced_step)

lemma balanced_initial_app: "balanced initial_app"
  by (simp add: balanced_def initial_app_def start_app_def preset_def)

lemma points_onAdded:
  "points (tri1 (state (onAdded this))) =
     points (tri1 (state this)) @
       map (\<lambda>p. createPoint (coord p))
         (drop (length (points (tri1 (state this)))) (points (tri2 (state this))))
   \<and> points (tri2 (state (onAdded this))) =
     points (tri2 (state this)) @
       map (\<lambda>p. createPoint (coord p))
         (drop (length (points (tri2 (state this)))) (points (tri1 (state this))))"
  by (simp add: onAdded_def Let_def sync_loop_eq)

lemma points_onSelected:
  "points (tri1 (state (onSelected i this))) = points (tri1 (state this))
   \<and> points (tri2 (state (onSelected i this))) = points (tri2 (state this))"
  by (simp add: onSelected_def state_stopAnim)

lemma model_of_onSelected: "points (model_of m (onSelected i this)) = points (model_of m this)"
  by (cases m) (simp_all add: model_of_def points_onSelected)

lemma points_component_addPoint:
  assumes "balanced this"
  shows "points (tri1 (state (component_addPoint m c this))) =
           points (tri1 (state this)) @ [createPoint c]
       \<and> points (tri2 (state (component_addPoint m c this))) =
           points (tri2 (state this)) @ [createPoint c]"
  using assms
  by (cases m)
    (simp_all add: component_addPoint_def Let_def points_onSelected points_onAdded addPoint_def
      balanced_def createPoint_idem)

text \<open>
  Claim C1. From a pair whose point lists have equal length, and so from the page as the
  script starts it, every state passed through by a sequence of operations (adding a
  point to either mesh, deleting a point, and the other operations of the page) has
  point lists of equal length. \<open>onAdded\<close> restores equal lengths from any state: it
  appends to the shorter list, for every index that the longer list has beyond it, a
  point created from the coordinate found there (\<open>createPoint\<close> rounds the coordinate,
  which changes nothing in a coordinate that \<open>addPoint\<close> has stored). Adding a point to
  one mesh of a balanced pair therefore appends the same point to both lists. Deleting
  applies \<open>Vue.delete\<close> with the same index to both lists, which removes the element at
  that index when there is one.
\<close>

theorem sync_keeps_lengths_equal:
  "(balanced this \<longrightarrow> list_all balanced (trace es this))
   \<and> list_all balanced (trace es initial_app)
   \<and> balanced (onAdded this)
   \<and> points (tri1 (state (onAdded this))) =
       points (tri1 (state this)) @
         map (\<lambda>p. createPoint (coord p))
           (drop (length (points (tri1 (state this)))) (points (tri2 (state this))))
   \<and> points (tri2 (state (onAdded this))) =
       points (tri2 (state this)) @
         map (\<lambda>p. createPoint (coord p))
           (drop (length (points (tri2 (state this)))) (points (tri1 (state this))))
   \<and> (balanced this \<longrightarrow>
        points (tri1 (state (step (AddPoint m c) this))) =
          points (tri1 (state this)) @ [createPoint c]
      \<and> points (tri2 (state (step (AddPoint m c) this))) =
          points (tri2 (state this)) @ [createPoint c])
   \<and> points (tri1 (state (step (DeletePoint i) this))) = vue_delete (points (tri1 (state this))) i
   \<and> points (tri2 (state (step (DeletePoint i) this))) = vue_delete (points (tri2 (state this))) i
   \<and> (0 \<le> i \<and> i < int (length xs) \<longrightarrow>
        vue_delete xs i = take (nat i) xs @ drop (nat i + 1) xs)"
proof -
  have "points (tri1 (state (step (DeletePoint i) this))) = vue_delete (points (tri1 (state this))) i"
    and "points (tri2 (state (step (DeletePoint i) this))) = vue_delete (points (tri2 (state this))) i"
    by (simp_all add: onDeleted_def)
  then show ?thesis
    using balanced_trace [of this es] balanced_trace [OF balanced_initial_app, of es]
      balanced_onAdded [of this] points_onAdded [of this]
      points_component_addPoint [of this m c] vue_delete_in_range [of i xs]
    by simp
qed

theorem sync_keeps_lengths_equal_witness:
  "balanced ex_pair
   \<and> list_all balanced (trace [DeletePoint 1, AddPoint Image1 (10, 10)] ex_pair)
   \<and> map coord (points (tri1 (state (step (AddPoint Image1 (10, 10)) ex_pair)))) =
       [(1, 1), (2, 2), (3, 3), (10, 10)]
   \<and> map coord (points (tri2 (state (step (AddPoint Image1 (10, 10)) ex_pair)))) =
       [(10, 10), (20, 20), (30, 30), (10, 10)]
   \<and> map coord (points (tri1 (state (step (DeletePoint 1) ex_pair)))) = [(1, 1), (3, 3)]
   \<and> map coord (points (tri2 (state (step (DeletePoint 1) ex_pair)))) = [(10, 10), (30, 30)]"
proof -
  have b: "balanced ex_pair"
    by (simp add: balanced_def ex_pair_def start_app_def preset_def)
  have p: "points (tri1 (state ex_pair)) = preset [(1, 1), (2, 2), (3, 3)]"
    "points (tri2 (state ex_pair)) = preset [(10, 10), (20, 20), (30, 30)]"
    by (simp_all add: ex_pair_def start_app_def)
  show ?thesis
    using sync_keeps_lengths_equal
      [of ex_pair "[DeletePoint 1, AddPoint Image1 (10, 10)]" Image1 "(10, 10)" 1
        "points (tri1 (state ex_pair))"] b
    by (simp add: p preset_def createPoint_def Math_round_def vue_delete_def splice1_def)
qed

section \<open>Indices outside the point list\<close>

lemma js_get_None: "js_get xs i = None \<longleftrightarrow> (i < 0 \<or> int (length xs) \<le> i)"
  by (auto simp: js_get_def)

lemma onDeleted_out_of_range:
  assumes "js_get (points (tri1 (state this))) index = None"
    and "js_get (points (tri2 (state this))) index = None"
  shows "onDeleted index this = this"
  using assms by (simp add: onDeleted_def js_get_None vue_delete_out_of_range)

text \<open>
  Claim C7, as the code has it. An index outside both point lists makes \<open>onDeleted\<close>
  return the page unchanged, and nothing is reported. The drag callback with such an
  index and a position that is not above the deletion threshold changes nothing and
  reports nothing either. The only failure on a missing point is the TypeError of the
  drag callbacks when they read or set \<open>toDelete\<close> on it: in the deletion branch of the
  drag callback, and in \<open>callbackDragEnd\<close>.
\<close>

theorem out_of_range_index_not_reported:
  "(js_get (points (tri1 (state this))) index = None \<and>
    js_get (points (tri2 (state this))) index = None \<longrightarrow> onDeleted index this = this)
   \<and> (js_get (points model) index = None \<and> \<not> snd pos < - deleteThreshold \<longrightarrow>
        dragCallback model index pos = Inr model)
   \<and> (js_get (points model) index = None \<and> snd pos < - deleteThreshold \<longrightarrow>
        dragCallback model index pos = Inl TypeError)
   \<and> (js_get (points (model_of m this)) index = None \<longrightarrow>
        callbackDragEnd m index this = Inl TypeError)"
  using onDeleted_out_of_range [of this index]
  by (simp add: dragCallback_def Let_def onDragging_def callbackDragEnd_def)

theorem out_of_range_index_not_reported_witness:
  "js_get (points (tri1 (state ex_pair))) 7 = None
   \<and> js_get (points (tri2 (state ex_pair))) 7 = None
   \<and> onDeleted 7 ex_pair = ex_pair
   \<and> \<not> snd (450 :: real, - 10 :: real) < - deleteThreshold
   \<and> dragCallback (tri1 (state ex_pair)) 7 (450, - 10) = Inr (tri1 (state ex_pair))
   \<and> snd (450 :: real, - 21 :: real) < - deleteThreshold
   \<and> dragCallback (tri1 (state ex_pair)) 7 (450, - 21) = Inl TypeError
   \<and> callbackDragEnd Image1 7 ex_pair = Inl TypeError"
  using out_of_range_index_not_reported [of ex_pair 7 "tri1 (state ex_pair)" "(450, - 10)" Image1]
    out_of_range_index_not_reported [of ex_pair 7 "tri1 (state ex_pair)" "(450, - 21)" Image1]
  by (simp add: ex_pair_def start_app_def preset_def js_get_def deleteThreshold_def model_of_def)

text \<open>
  The claim that a delete with an index out of range always raises a condition fails: with
  three points in each mesh, \<open>onDeleted\<close> at the indices \<open>-1\<close> and \<open>3\<close> returns the page
  as it was.
\<close>

theorem onDeleted_silent_counterexample:
  "js_get (points (tri1 (state ex_pair))) (- 1) = None
   \<and> js_get (points (tri2 (state ex_pair))) (- 1) = None
   \<and> onDeleted (- 1) ex_pair = ex_pair
   \<and> js_get (points (tri1 (state ex_pair))) 3 = None
   \<and> js_get (points (tri2 (state ex_pair))) 3 = None
   \<and> onDeleted 3 ex_pair = ex_pair"
  by (simp add: ex_pair_def start_app_def preset_def js_get_def onDeleted_def vue_delete_def
      splice1_def)

section \<open>Dragging a point\<close>

lemma um_clamp_range: "lo \<le> hi \<Longrightarrow> lo \<le> um_clamp x lo hi \<and> um_clamp x lo hi \<le> hi"
  by (simp add: um_clamp_def)

lemma js_get_Some: "js_get xs i = Some p \<Longrightarrow> 0 \<le> i \<and> nat i < length xs \<and> xs ! nat i = p"
  by (auto simp: js_get_def split: if_splits)

lemma dragCallback_clamp:
  assumes "js_get (points model) index = Some p" and "\<not> snd pos < - deleteThreshold"
  shows "dragCallback model index pos =
     Inr (model\<lparr>points := (points model)
       [nat index := p\<lparr>coord := (um_clamp (fst pos) 0 (size_w (tsize model)),
                                 um_clamp (snd pos) 0 (size_h (tsize model)))\<rparr>]\<rparr>)"
  using assms by (simp add: dragCallback_def Let_def onDragging_def)

lemma dragCallback_mark:
  assumes "js_get (points model) index = Some p" and "snd pos < - deleteThreshold"
  shows "dragCallback model index pos =
     Inr (model\<lparr>points := (points model)[nat index := p\<lparr>toDelete := True, coord := pos\<rparr>]\<rparr>)"
proof -
  from assms(1) have r: "0 \<le> index" "nat index < length (points model)"
    by (auto dest: js_get_Some)
  then have "js_get ((points model)[nat index := p\<lparr>toDelete := True\<rparr>]) index
      = Some (p\<lparr>toDelete := True\<rparr>)"
    by (simp add: js_get_def)
  then show ?thesis
    using assms by (simp add: dragCallback_def Let_def onDragging_def)
qed

text \<open>
  Claim C4. For an existing point, a drag to a position whose vertical coordinate is not
  below \<open>-20\<close> stores the position clamped to \<open>[0,w] \<times> [0,h]\<close> and leaves \<open>toDelete\<close> as it
  was; a drag to a position whose vertical coordinate is below \<open>-20\<close> sets \<open>toDelete\<close>
  and stores the position as it is, not clamped. In a domain of 400 by 400 the position
  \<open>(450,-10)\<close> is stored as \<open>(400,0)\<close>; \<open>y = -19\<close> is clamped to 0 and \<open>y = -21\<close> marks
  the point.
\<close>

theorem dragCallback_clamps_or_marks:
  "(js_get (points model) index = Some p \<and> \<not> snd pos < - deleteThreshold \<longrightarrow>
      dragCallback model index pos =
        Inr (model\<lparr>points := (points model)
          [nat index := p\<lparr>coord := (um_clamp (fst pos) 0 (size_w (tsize model)),
                                    um_clamp (snd pos) 0 (size_h (tsize model)))\<rparr>]\<rparr>))
   \<and> (0 \<le> size_w (tsize model) \<longrightarrow>
        0 \<le> um_clamp (fst pos) 0 (size_w (tsize model))
        \<and> um_clamp (fst pos) 0 (size_w (tsize model)) \<le> size_w (tsize model))
   \<and> (0 \<le> size_h (tsize model) \<longrightarrow>
        0 \<le> um_clamp (snd pos) 0 (size_h (tsize model))
        \<and> um_clamp (snd pos) 0 (size_h (tsize model)) \<le> size_h (tsize model))
   \<and> (js_get (points model) index = Some p \<and> snd pos < - deleteThreshold \<longrightarrow>
        dragCallback model index pos =
          Inr (model\<lparr>points := (points model)[nat index := p\<lparr>toDelete := True, coord := pos\<rparr>]\<rparr>))
   \<and> (js_get (points model) index = Some p \<and> tsize model = \<lparr>size_w = 400, size_h = 400\<rparr> \<longrightarrow>
        dragCallback model index (450, - 10) =
          Inr (model\<lparr>points := (points model)[nat index := p\<lparr>coord := (400, 0)\<rparr>]\<rparr>)
        \<and> dragCallback model index (fst pos, - 19) =
          Inr (model\<lparr>points := (points model)
            [nat index := p\<lparr>coord := (um_clamp (fst pos) 0 400, 0)\<rparr>]\<rparr>)
        \<and> dragCallback model index (fst pos, - 21) =
          Inr (model\<lparr>points := (points model)
            [nat index := p\<lparr>toDelete := True, coord := (fst pos, - 21)\<rparr>]\<rparr>))"
proof -
  have ex: "js_get (points model) index = Some p \<Longrightarrow> tsize model = \<lparr>size_w = 400, size_h = 400\<rparr> \<Longrightarrow>
        dragCallback model index (450, - 10) =
          Inr (model\<lparr>points := (points model)[nat index := p\<lparr>coord := (400, 0)\<rparr>]\<rparr>)
        \<and> dragCallback model index (fst pos, - 19) =
          Inr (model\<lparr>points := (points model)
            [nat index := p\<lparr>coord := (um_clamp (fst pos) 0 400, 0)\<rparr>]\<rparr>)
        \<and> dragCallback model index (fst pos, - 21) =
          Inr (model\<lparr>points := (points model)
            [nat index := p\<lparr>toDelete := True, coord := (fst pos, - 21)\<rparr>]\<rparr>)"
    using dragCallback_clamp [of model index p "(450, - 10)"]
      dragCallback_clamp [of model index p "(fst pos, - 19)"]
      dragCallback_mark [of model index p "(fst pos, - 21)"]
    by (simp add: deleteThreshold_def um_clamp_def)
  show ?thesis
    using dragCallback_clamp [of model index p pos] dragCallback_mark [of model index p pos]
      um_clamp_range [of 0 "size_w (tsize model)" "fst pos"]
      um_clamp_range [of 0 "size_h (tsize model)" "snd pos"] ex
    by blast
qed

theorem dragCallback_clamps_or_marks_witness:
  "js_get (points one_point_mesh) 0 = Some \<lparr>coord = (200, 100), toDelete = False\<rparr>
   \<and> tsize one_point_mesh = \<lparr>size_w = 400, size_h = 400\<rparr>
   \<and> dragCallback one_point_mesh 0 (450, - 10) =
       Inr \<lparr>tsize = \<lparr>size_w = 400, size_h = 400\<rparr>,
            points = [\<lparr>coord = (400, 0), toDelete = False\<rparr>]\<rparr>
   \<and> dragCallback one_point_mesh 0 (450, - 19) =
       Inr \<lparr>tsize = \<lparr>size_w = 400, size_h = 400\<rparr>,
            points = [\<lparr>coord = (400, 0), toDelete = False\<rparr>]\<rparr>
   \<and> dragCallback one_point_mesh 0 (450, - 20) =
       Inr \<lparr>tsize = \<lparr>size_w = 400, size_h = 400\<rparr>,
            points = [\<lparr>coord = (400, 0), toDelete = False\<rparr>]\<rparr>
   \<and> dragCallback one_point_mesh 0 (450, - 21) =
       Inr \<lparr>tsize = \<lparr>size_w = 400, size_h = 400\<rparr>,
            points = [\<lparr>coord = (450, - 21), toDelete = True\<rparr>]\<rparr>"
proof -
  have g: "js_get (points one_point_mesh) 0 = Some \<lparr>coord = (200, 100), toDelete = False\<rparr>"
    by (simp add: one_point_mesh_def preset_def js_get_def)
  have s: "tsize one_point_mesh = \<lparr>size_w = 400, size_h = 400\<rparr>"
    by (simp add: one_point_mesh_def)
  show ?thesis
    using g s
      dragCallback_clamps_or_marks
        [of one_point_mesh 0 "\<lparr>coord = (200, 100), toDelete = False\<rparr>" "(450, - 20)"]
    by (simp add: deleteThreshold_def um_clamp_def one_point_mesh_def preset_def)
qed

section \<open>Interpolated coordinates\<close>

lemma um_lerp_zero: "length co1 \<le> length co2 \<Longrightarrow> um_lerp co1 co2 0 = co1"
proof (induction co1 arbitrary: co2)
  case Nil
  then show ?case by (simp add: um_lerp_def)
next
  case (Cons c co1)
  then obtain d co2' where "co2 = d # co2'"
    by (cases co2) auto
  with Cons show ?case
    by (simp add: um_lerp_def lerp_number_def)
qed

lemma um_lerp_one: "length co2 \<le> length co1 \<Longrightarrow> um_lerp co1 co2 1 = co2"
proof (induction co2 arbitrary: co1)
  case Nil
  then show ?case by (simp add: um_lerp_def)
next
  case (Cons d co2)
  then obtain c co1' where "co1 = c # co1'"
    by (cases co1) auto
  with Cons show ?case
    by (simp add: um_lerp_def lerp_number_def)
qed

text \<open>
  Claim C5, as the code has it. Without a parameter \<open>t\<close> the destination coordinates of
  \<open>warpImage\<close> are the target's coordinates. With a parameter \<open>t\<close>, when the two meshes
  have the same number of effective points, the destination coordinates are, pair by
  pair, \<open>co1 + t * (co2 - co1)\<close>, one for every effective point; at \<open>t = 0\<close> they are the
  source mesh's effective coordinates and at \<open>t = 1\<close> the target mesh's. The value \<open>0\<close>
  counts as supplied, by the test \<open>lerpT === 0\<close>.
\<close>

theorem warpImage_co2_interpolates:
  "warpImage_co2 triSource triTarget None = map coord (getEffectivePoints triTarget)
   \<and> (length (getEffectivePoints triSource) = length (getEffectivePoints triTarget) \<longrightarrow>
        warpImage_co2 triSource triTarget (Some t) =
          map2 (\<lambda>c1 c2. (fst c1 + t * (fst c2 - fst c1), snd c1 + t * (snd c2 - snd c1)))
            (map coord (getEffectivePoints triSource)) (map coord (getEffectivePoints triTarget))
      \<and> length (warpImage_co2 triSource triTarget (Some t)) =
          length (getEffectivePoints triSource)
      \<and> warpImage_co2 triSource triTarget (Some 0) = map coord (getEffectivePoints triSource)
      \<and> warpImage_co2 triSource triTarget (Some 1) = map coord (getEffectivePoints triTarget))"
proof -
  have a: "warpImage_co2 triSource triTarget (Some t) =
     um_lerp (map coord (getEffectivePoints triSource)) (map coord (getEffectivePoints triTarget)) t"
    for t
    by (simp add: warpImage_co2_def Let_def)
  show ?thesis
    using um_lerp_zero [of "map coord (getEffectivePoints triSource)"
        "map coord (getEffectivePoints triTarget)"]
      um_lerp_one [of "map coord (getEffectivePoints triTarget)"
        "map coord (getEffectivePoints triSource)"]
    by (simp add: a) (simp add: um_lerp_def lerp_number_def warpImage_co2_def Let_def)
qed

theorem warpImage_co2_interpolates_witness:
  "length (getEffectivePoints one_point_mesh) = length (getEffectivePoints other_point_mesh)
   \<and> warpImage_co2 one_point_mesh other_point_mesh (Some 0) =
       [(0, 0), (400, 0), (0, 400), (400, 400), (200, 100)]
   \<and> warpImage_co2 one_point_mesh other_point_mesh (Some 1) =
       [(0, 0), (400, 0), (0, 400), (400, 400), (100, 300)]
   \<and> warpImage_co2 one_point_mesh other_point_mesh (Some (1 / 2)) =
       [(0, 0), (400, 0), (0, 400), (400, 400), (150, 200)]"
proof -
  have e: "map coord (getEffectivePoints one_point_mesh) =
      [(0, 0), (400, 0), (0, 400), (400, 400), (200, 100)]"
    "map coord (getEffectivePoints other_point_mesh) =
      [(0, 0), (400, 0), (0, 400), (400, 400), (100, 300)]"
    by (simp_all add: one_point_mesh_def other_point_mesh_def preset_def getEffectivePoints_eq
        createPoint_def Math_round_def)
  have l: "length (getEffectivePoints one_point_mesh) = length (getEffectivePoints other_point_mesh)"
    by (simp add: one_point_mesh_def other_point_mesh_def preset_def getEffectivePoints_eq)
  show ?thesis
    using l warpImage_co2_interpolates [of one_point_mesh other_point_mesh "1 / 2"]
    by (simp add: e)
qed

lemma length_warpImage_co2:
  "length (warpImage_co2 triSource triTarget (Some s)) =
   length (warpImage_co2 triSource triTarget (Some t))"
  by (simp add: warpImage_co2_def Let_def um_lerp_def)

lemma coords_one_point_mesh:
  "map coord (getEffectivePoints one_point_mesh) =
     [(0, 0), (400, 0), (0, 400), (400, 400), (200, 100)]"
  by (simp add: one_point_mesh_def preset_def getEffectivePoints_eq createPoint_def Math_round_def)

lemma coords_marked_point_mesh:
  "map coord (getEffectivePoints marked_point_mesh) =
     [(0, 0), (400, 0), (0, 400), (400, 400)]"
  by (simp add: marked_point_mesh_def getEffectivePoints_eq createPoint_def Math_round_def)

text \<open>
  Without the condition on the numbers of effective points the two identities fail
  together. The two meshes below have one point each; the point of the second is marked
  for deletion and so is not among its effective points, which leaves five effective
  coordinates in the source and four in the target. The interpolated array has the same
  length at \<open>t = 0\<close> and at \<open>t = 1\<close>, so it cannot be the source's array at \<open>0\<close> and the
  target's at \<open>1\<close>.
\<close>

theorem warpImage_co2_marked_point_counterexample:
  "length (points one_point_mesh) = length (points marked_point_mesh)
   \<and> length (map coord (getEffectivePoints one_point_mesh)) = 5
   \<and> length (map coord (getEffectivePoints marked_point_mesh)) = 4
   \<and> length (warpImage_co2 one_point_mesh marked_point_mesh (Some 0)) =
       length (warpImage_co2 one_point_mesh marked_point_mesh (Some 1))
   \<and> \<not> (warpImage_co2 one_point_mesh marked_point_mesh (Some 0) =
           map coord (getEffectivePoints one_point_mesh)
         \<and> warpImage_co2 one_point_mesh marked_point_mesh (Some 1) =
           map coord (getEffectivePoints marked_point_mesh))"
proof -
  have p: "length (points one_point_mesh) = length (points marked_point_mesh)"
    by (simp add: one_point_mesh_def marked_point_mesh_def preset_def)
  have l: "length (warpImage_co2 one_point_mesh marked_point_mesh (Some 0)) =
       length (warpImage_co2 one_point_mesh marked_point_mesh (Some 1))"
    by (rule length_warpImage_co2)
  have n: "\<not> (warpImage_co2 one_point_mesh marked_point_mesh (Some 0) =
           map coord (getEffectivePoints one_point_mesh)
         \<and> warpImage_co2 one_point_mesh marked_point_mesh (Some 1) =
           map coord (getEffectivePoints marked_point_mesh))"
  proof
    assume "warpImage_co2 one_point_mesh marked_point_mesh (Some 0) =
           map coord (getEffectivePoints one_point_mesh)
         \<and> warpImage_co2 one_point_mesh marked_point_mesh (Some 1) =
           map coord (getEffectivePoints marked_point_mesh)"
    with l have "length (map coord (getEffectivePoints one_point_mesh)) =
        length (map coord (getEffectivePoints marked_point_mesh))"
      by simp
    then show False
      by (simp add: coords_one_point_mesh coords_marked_point_mesh)
  qed
  show ?thesis
    using p l n by (simp add: coords_one_point_mesh coords_marked_point_mesh)
qed

section \<open>The edge list\<close>

lemma fold_triangles_sides:
  "fold (\<lambda>t st. case t of (t0, t1, t2) \<Rightarrow>
           addIfNew ns (addIfNew ns (addIfNew ns st t0 t1) t1 t2) t2 t0) ts st =
   fold (\<lambda>e st. addIfNew ns st (fst e) (snd e)) (triangle_sides ts) st"
proof (induction ts arbitrary: st)
  case Nil
  show ?case by (simp add: triangle_sides_def)
next
  case (Cons t ts)
  obtain t0 t1 t2 where t: "t = (t0, t1, t2)"
    by (cases t) auto
  have s: "triangle_sides ((t0, t1, t2) # ts) = (t0, t1) # (t1, t2) # (t2, t0) # triangle_sides ts"
    by (simp add: triangle_sides_def)
  show ?case
    unfolding t by (simp add: s Cons.IH)
qed

lemma addIfNew_step:
  assumes "drawn_matches ns st"
  shows "drawn_matches ns (addIfNew ns st p1 p2)
    \<and> set (map (\<lambda>e. edge_key ns (fst e) (snd e)) (snd (addIfNew ns st p1 p2))) =
        insert (edge_key ns p1 p2) (set (map (\<lambda>e. edge_key ns (fst e) (snd e)) (snd st)))
    \<and> set (snd (addIfNew ns st p1 p2)) \<subseteq> insert (p1, p2) (set (snd st))"
proof (cases "fst st (edge_key ns p1 p2) = Some True")
  case True
  then have "addIfNew ns st p1 p2 = st"
    by (simp add: addIfNew_def Let_def)
  with True assms show ?thesis
    by (auto simp: drawn_matches_def)
next
  case False
  then have a: "addIfNew ns st p1 p2 =
      ((fst st)(edge_key ns p1 p2 \<mapsto> True), snd st @ [(p1, p2)])"
    by (simp add: addIfNew_def Let_def)
  from False assms have n: "edge_key ns p1 p2 \<notin> set (map (\<lambda>e. edge_key ns (fst e) (snd e)) (snd st))"
    by (simp add: drawn_matches_def)
  from assms n show ?thesis
    unfolding a drawn_matches_def by auto
qed

lemma fold_addIfNew:
  assumes "drawn_matches ns st"
  shows "drawn_matches ns (fold (\<lambda>e st. addIfNew ns st (fst e) (snd e)) es st)
    \<and> set (map (\<lambda>e. edge_key ns (fst e) (snd e))
          (snd (fold (\<lambda>e st. addIfNew ns st (fst e) (snd e)) es st))) =
        set (map (\<lambda>e. edge_key ns (fst e) (snd e)) es) \<union>
        set (map (\<lambda>e. edge_key ns (fst e) (snd e)) (snd st))
    \<and> set (snd (fold (\<lambda>e st. addIfNew ns st (fst e) (snd e)) es st)) \<subseteq> set es \<union> set (snd st)"
  using assms
proof (induction es arbitrary: st)
  case Nil
  then show ?case by simp
next
  case (Cons e es)
  note step = addIfNew_step [OF Cons.prems, of "fst e" "snd e"]
  from step have m: "drawn_matches ns (addIfNew ns st (fst e) (snd e))"
    by simp
  from Cons.IH [OF m] step show ?case
    by auto
qed

lemma drawn_matches_start: "drawn_matches ns (Map.empty, [])"
  by (simp add: drawn_matches_def)

lemma getEdges_fold:
  "getEdges ns triangulate this =
     snd (fold (\<lambda>e st. addIfNew ns st (fst e) (snd e))
            (triangle_sides (getTriangles triangulate this False)) (Map.empty, []))"
  by (simp add: getEdges_def fold_triangles_sides)

lemma edge_key_commute: "edge_key ns (Coords c1) (Coords c2) = edge_key ns (Coords c2) (Coords c1)"
proof -
  consider "array_string ns c1 < array_string ns c2" | "array_string ns c1 = array_string ns c2"
    | "array_string ns c2 < array_string ns c1"
    by (rule linorder_cases)
  then show ?thesis
    by cases (auto simp: edge_key_def js_less_def js_string_def)
qed

lemma no_index_coord_vertex: "no_index (coord_vertex coords a)"
  by (simp add: no_index_def coord_vertex_def split: option.splits)

lemma no_index_sides:
  "e \<in> set (triangle_sides (getTriangles triangulate this False)) \<Longrightarrow>
   no_index (fst e) \<and> no_index (snd e)"
  by (auto simp: triangle_sides_def getTriangles_def Let_def no_index_coord_vertex)

text \<open>
  Claim C3, as the code has it. \<open>getEdges\<close> returns pairs of vertex coordinates (or
  \<open>undefined\<close>), never pairs of indices. Its key is built from the two coordinates'
  strings, the smaller string first, so it does not depend on the order of two vertices.
  No two returned edges have the same key, the keys of the returned edges are exactly the
  keys of the triangle sides, and every returned edge is a triangle side.
\<close>

theorem getEdges_dedup_by_coordinate_key:
  "distinct (map (\<lambda>e. edge_key ns (fst e) (snd e)) (getEdges ns triangulate this))
   \<and> set (map (\<lambda>e. edge_key ns (fst e) (snd e)) (getEdges ns triangulate this)) =
       set (map (\<lambda>e. edge_key ns (fst e) (snd e))
              (triangle_sides (getTriangles triangulate this False)))
   \<and> set (getEdges ns triangulate this) \<subseteq>
       set (triangle_sides (getTriangles triangulate this False))
   \<and> list_all (\<lambda>e. no_index (fst e) \<and> no_index (snd e)) (getEdges ns triangulate this)
   \<and> edge_key ns (Coords c1) (Coords c2) = edge_key ns (Coords c2) (Coords c1)"
proof -
  note f = fold_addIfNew [OF drawn_matches_start,
      of ns "triangle_sides (getTriangles triangulate this False)"]
  from f have s: "set (getEdges ns triangulate this) \<subseteq>
       set (triangle_sides (getTriangles triangulate this False))"
    by (simp add: getEdges_fold)
  have n: "list_all (\<lambda>e. no_index (fst e) \<and> no_index (snd e)) (getEdges ns triangulate this)"
    unfolding list_all_iff using s no_index_sides by blast
  from f s n show ?thesis
    by (simp add: getEdges_fold drawn_matches_def edge_key_commute)
qed

lemma integer_string_0: "integer_string 0 = ''0''"
  by (simp add: integer_string_def nat_string.simps [of 0] digit_char_def)

lemma integer_string_400: "integer_string 400 = ''400''"
  by (simp add: integer_string_def nat_string.simps [of 400] nat_string.simps [of 40]
      nat_string.simps [of 4] digit_char_def)

lemma coords_corner_point_mesh:
  "map coord (getEffectivePoints corner_point_mesh) =
     [(0, 0), (400, 0), (0, 400), (400, 400), (0, 0)]"
  by (simp add: corner_point_mesh_def preset_def getEffectivePoints_eq createPoint_def Math_round_def)

lemma getTriangles_corner_point_mesh:
  "getTriangles sample_triangulate corner_point_mesh False =
     [(Coords (0, 400), Coords (400, 400), Coords (400, 0)),
      (Coords (0, 0), Coords (0, 400), Coords (400, 0))]"
  "getTriangles sample_triangulate corner_point_mesh True =
     [(Index 2, Index 3, Index 1), (Index 0, Index 2, Index 1)]"
  by (simp_all add: getTriangles_def Let_def coords_corner_point_mesh sample_triangulate_def
      coord_vertex_def index_vertex_def js_nth_def)

lemma getEdges_corner_point_mesh:
  "getEdges integer_string sample_triangulate corner_point_mesh =
     [(Coords (0, 400), Coords (400, 400)), (Coords (400, 400), Coords (400, 0)),
      (Coords (400, 0), Coords (0, 400)), (Coords (0, 0), Coords (0, 400)),
      (Coords (400, 0), Coords (0, 0))]"
  by (simp add: getEdges_def getTriangles_corner_point_mesh
      addIfNew_def edge_key_def js_less_def js_string_def
      array_string_def integer_string_0 integer_string_400)

lemma spec_edges_corner_point_mesh:
  "spec_edges (getTriangles sample_triangulate corner_point_mesh True) =
     [(Index 2, Index 3), (Index 1, Index 3), (Index 0, Index 2), (Index 1, Index 2),
      (Index 0, Index 1)]"
  by (simp add: spec_edges_def getTriangles_corner_point_mesh)

theorem getEdges_dedup_by_coordinate_key_witness:
  "map (\<lambda>e. edge_key integer_string (fst e) (snd e))
     (getEdges integer_string sample_triangulate corner_point_mesh) =
     [''0,400_400,400'', ''400,0_400,400'', ''0,400_400,0'', ''0,0_0,400'', ''0,0_400,0'']
   \<and> distinct (map (\<lambda>e. edge_key integer_string (fst e) (snd e))
        (getEdges integer_string sample_triangulate corner_point_mesh))
   \<and> list_all (\<lambda>e. no_index (fst e) \<and> no_index (snd e))
        (getEdges integer_string sample_triangulate corner_point_mesh)
   \<and> edge_key integer_string (Coords (400, 0)) (Coords (0, 400)) = ''0,400_400,0''
   \<and> edge_key integer_string (Coords (0, 400)) (Coords (400, 0)) = ''0,400_400,0''"
proof -
  have k: "edge_key integer_string (Coords (0, 400)) (Coords (400, 0)) = ''0,400_400,0''"
    by (simp add: edge_key_def js_less_def js_string_def array_string_def integer_string_0
        integer_string_400)
  have m: "map (\<lambda>e. edge_key integer_string (fst e) (snd e))
     (getEdges integer_string sample_triangulate corner_point_mesh) =
     [''0,400_400,400'', ''400,0_400,400'', ''0,400_400,0'', ''0,0_0,400'', ''0,0_400,0'']"
    by (simp add: getEdges_corner_point_mesh edge_key_def js_less_def js_string_def
        array_string_def integer_string_0 integer_string_400)
  note t = getEdges_dedup_by_coordinate_key
    [of integer_string sample_triangulate corner_point_mesh "(400, 0)" "(0, 400)"]
  have d: "distinct (map (\<lambda>e. edge_key integer_string (fst e) (snd e))
        (getEdges integer_string sample_triangulate corner_point_mesh))"
    using t by (rule conjunct1)
  have n: "list_all (\<lambda>e. no_index (fst e) \<and> no_index (snd e))
        (getEdges integer_string sample_triangulate corner_point_mesh)"
    using t by blast
  have "edge_key integer_string (Coords (400, 0)) (Coords (0, 400)) =
      edge_key integer_string (Coords (0, 400)) (Coords (400, 0))"
    using t by blast
  with k have k': "edge_key integer_string (Coords (400, 0)) (Coords (0, 400)) = ''0,400_400,0''"
    by simp
  show ?thesis
    by (intro conjI m d n k k')
qed

text \<open>
  The claim that the edges are pairs of vertex indices fails. For the mesh whose only
  point lies on the corner \<open>(0,0)\<close> the triangles are \<open>2,3,1\<close> and \<open>0,2,1\<close>; the
  specification's edge list has the five index pairs 2-3, 1-3, 0-2, 1-2 and 0-1, and
  \<open>getEdges\<close> returns five pairs of coordinates, none of which is a pair of indices.
\<close>

theorem getEdges_index_pairs_counterexample:
  "getEdges integer_string sample_triangulate corner_point_mesh =
     [(Coords (0, 400), Coords (400, 400)), (Coords (400, 400), Coords (400, 0)),
      (Coords (400, 0), Coords (0, 400)), (Coords (0, 0), Coords (0, 400)),
      (Coords (400, 0), Coords (0, 0))]
   \<and> spec_edges (getTriangles sample_triangulate corner_point_mesh True) =
     [(Index 2, Index 3), (Index 1, Index 3), (Index 0, Index 2), (Index 1, Index 2),
      (Index 0, Index 1)]
   \<and> list_all index_pair (spec_edges (getTriangles sample_triangulate corner_point_mesh True))
   \<and> \<not> list_ex index_pair (getEdges integer_string sample_triangulate corner_point_mesh)"
  by (simp add: getEdges_corner_point_mesh spec_edges_corner_point_mesh index_pair_def)

section \<open>The triangles drawn by warpImage\<close>

lemma length_triplets: "length (triplets xs) = (length xs + 2) div 3"
  by (induction xs rule: triplets.induct) simp_all

lemma triplets_nth:
  "3 * k + 2 < length xs \<Longrightarrow>
   triplets xs ! k = (Some (xs ! (3 * k)), Some (xs ! (3 * k + 1)), Some (xs ! (3 * k + 2)))"
proof (induction xs arbitrary: k rule: triplets.induct)
  case (4 a b c rest)
  show ?case
  proof (cases k)
    case 0
    then show ?thesis by simp
  next
    case (Suc j)
    with "4.prems" have "3 * j + 2 < length rest"
      by simp
    from "4.IH" [OF this] show ?thesis
      by (simp add: Suc)
  qed
qed simp_all

lemma getTriangles_True:
  "getTriangles triangulate this True =
     map (\<lambda>(a, b, c). (index_vertex a, index_vertex b, index_vertex c))
       (triplets (triangulate (map coord (getEffectivePoints this))))"
  by (simp add: getTriangles_def Let_def)

lemma warpImage_eq:
  "warpImage triangulate img triSource triTarget lerpT =
     ClearRect 0 0 (size_w (tsize triTarget)) (size_h (tsize triTarget)) #
     map (\<lambda>(i0, i1, i2).
            DrawImageTriangle img
              (js_lookup (map coord (getEffectivePoints triSource)) i0)
              (js_lookup (map coord (getEffectivePoints triSource)) i1)
              (js_lookup (map coord (getEffectivePoints triSource)) i2)
              (js_lookup (warpImage_co2 triSource triTarget lerpT) i0)
              (js_lookup (warpImage_co2 triSource triTarget lerpT) i1)
              (js_lookup (warpImage_co2 triSource triTarget lerpT) i2))
       (getTriangles triangulate triSource True)"
  by (simp add: warpImage_def Let_def)

lemma warpImage_nth:
  assumes "3 * k + 2 < length (triangulate (map coord (getEffectivePoints triSource)))"
    and "triangulate (map coord (getEffectivePoints triSource)) ! (3 * k) = a"
    and "triangulate (map coord (getEffectivePoints triSource)) ! (3 * k + 1) = b"
    and "triangulate (map coord (getEffectivePoints triSource)) ! (3 * k + 2) = c"
  shows "warpImage triangulate img triSource triTarget lerpT ! Suc k =
     DrawImageTriangle img
       (js_nth (map coord (getEffectivePoints triSource)) a)
       (js_nth (map coord (getEffectivePoints triSource)) b)
       (js_nth (map coord (getEffectivePoints triSource)) c)
       (js_nth (warpImage_co2 triSource triTarget lerpT) a)
       (js_nth (warpImage_co2 triSource triTarget lerpT) b)
       (js_nth (warpImage_co2 triSource triTarget lerpT) c)"
proof -
  let ?tr = "triangulate (map coord (getEffectivePoints triSource))"
  from assms(1) have k: "k < length (triplets ?tr)"
    by (simp add: length_triplets)
  show ?thesis
    using assms k
    by (simp add: warpImage_eq getTriangles_True triplets_nth index_vertex_def js_lookup_def)
qed

text \<open>
  Claim C8. \<open>warpImage\<close> clears the destination and then draws one triangle for every
  triangle of the source mesh's triangulation, in that order: the triangle number \<open>k\<close>
  has the indices at \<open>3k\<close>, \<open>3k+1\<close> and \<open>3k+2\<close> of the array that \<open>Delaunay.triangulate\<close>
  returns for the source coordinates, and when these three indices lie within \<open>co1\<close> and
  \<open>co2\<close>, its source corners are the elements of \<open>co1\<close> and its destination corners the
  elements of \<open>co2\<close> at these indices. The triangulation of the target mesh is computed
  and not used: two triangulation functions that agree on the source mesh's coordinates
  give the same output, whatever they answer on the target's.
\<close>

theorem warpImage_uses_source_triangles:
  "(let co1 = map coord (getEffectivePoints triSource);
        co2 = warpImage_co2 triSource triTarget lerpT;
        triangles = triangulate co1;
        ops = warpImage triangulate img triSource triTarget lerpT
    in ops =
         ClearRect 0 0 (size_w (tsize triTarget)) (size_h (tsize triTarget)) #
         map (\<lambda>(i0, i1, i2).
                DrawImageTriangle img
                  (js_lookup co1 i0) (js_lookup co1 i1) (js_lookup co1 i2)
                  (js_lookup co2 i0) (js_lookup co2 i1) (js_lookup co2 i2))
           (getTriangles triangulate triSource True)
       \<and> length ops = Suc ((length triangles + 2) div 3)
       \<and> (3 * k + 2 < length triangles
            \<and> triangles ! (3 * k) = a \<and> triangles ! (3 * k + 1) = b
            \<and> triangles ! (3 * k + 2) = c
            \<and> a < length co1 \<and> b < length co1 \<and> c < length co1
            \<and> a < length co2 \<and> b < length co2 \<and> c < length co2 \<longrightarrow>
          ops ! Suc k =
            DrawImageTriangle img
              (Some (co1 ! a)) (Some (co1 ! b)) (Some (co1 ! c))
              (Some (co2 ! a)) (Some (co2 ! b)) (Some (co2 ! c)))
       \<and> (triangles = triangulate' co1 \<longrightarrow>
            ops = warpImage triangulate' img triSource triTarget lerpT))"
proof -
  have l: "length (warpImage triangulate img triSource triTarget lerpT) =
      Suc ((length (triangulate (map coord (getEffectivePoints triSource))) + 2) div 3)"
    by (simp add: warpImage_eq getTriangles_True length_triplets)
  have i: "triangulate (map coord (getEffectivePoints triSource)) =
        triangulate' (map coord (getEffectivePoints triSource)) \<Longrightarrow>
      warpImage triangulate img triSource triTarget lerpT =
      warpImage triangulate' img triSource triTarget lerpT"
    by (simp add: warpImage_eq getTriangles_True)
  show ?thesis
    unfolding Let_def
    apply (intro conjI impI)
       apply (rule warpImage_eq)
      apply (rule l)
     apply (simp add: warpImage_nth js_nth_def)
    apply (erule i)
    done
qed

lemma coords_small_mesh:
  "map coord (getEffectivePoints small_mesh) =
     [(0, 0), (200, 0), (0, 300), (200, 300), (10, 20)]"
  by (simp add: small_mesh_def preset_def getEffectivePoints_eq createPoint_def Math_round_def)

lemma co2_corner_small:
  "warpImage_co2 corner_point_mesh small_mesh None =
     [(0, 0), (200, 0), (0, 300), (200, 300), (10, 20)]"
  by (simp add: warpImage_co2_def Let_def coords_small_mesh)

theorem warpImage_uses_source_triangles_witness:
  "sample_triangulate (map coord (getEffectivePoints corner_point_mesh)) = [2, 3, 1, 0, 2, 1]
   \<and> other_triangulate (map coord (getEffectivePoints corner_point_mesh)) = [2, 3, 1, 0, 2, 1]
   \<and> sample_triangulate (map coord (getEffectivePoints small_mesh)) \<noteq>
     other_triangulate (map coord (getEffectivePoints small_mesh))
   \<and> warpImage sample_triangulate Loader1_canvas corner_point_mesh small_mesh None =
       [ClearRect 0 0 200 300,
        DrawImageTriangle Loader1_canvas (Some (0, 400)) (Some (400, 400)) (Some (400, 0))
          (Some (0, 300)) (Some (200, 300)) (Some (200, 0)),
        DrawImageTriangle Loader1_canvas (Some (0, 0)) (Some (0, 400)) (Some (400, 0))
          (Some (0, 0)) (Some (0, 300)) (Some (200, 0))]
   \<and> warpImage sample_triangulate Loader1_canvas corner_point_mesh small_mesh None ! 2 =
        DrawImageTriangle Loader1_canvas (Some (0, 0)) (Some (0, 400)) (Some (400, 0))
          (Some (0, 0)) (Some (0, 300)) (Some (200, 0))
   \<and> warpImage other_triangulate Loader1_canvas corner_point_mesh small_mesh None =
     warpImage sample_triangulate Loader1_canvas corner_point_mesh small_mesh None"
proof -
  have s: "sample_triangulate (map coord (getEffectivePoints corner_point_mesh)) = [2, 3, 1, 0, 2, 1]"
    by (simp add: coords_corner_point_mesh sample_triangulate_def)
  have s': "other_triangulate (map coord (getEffectivePoints corner_point_mesh)) = [2, 3, 1, 0, 2, 1]"
    by (simp add: coords_corner_point_mesh other_triangulate_def)
  have d: "sample_triangulate (map coord (getEffectivePoints small_mesh)) \<noteq>
     other_triangulate (map coord (getEffectivePoints small_mesh))"
    by (simp add: coords_small_mesh sample_triangulate_def other_triangulate_def)
  have z: "tsize small_mesh = \<lparr>size_w = 200, size_h = 300\<rparr>"
    by (simp add: small_mesh_def)
  note t = warpImage_uses_source_triangles
    [of corner_point_mesh small_mesh None sample_triangulate Loader1_canvas
      1 0 2 1 other_triangulate, unfolded Let_def]
  have w: "warpImage sample_triangulate Loader1_canvas corner_point_mesh small_mesh None =
       [ClearRect 0 0 200 300,
        DrawImageTriangle Loader1_canvas (Some (0, 400)) (Some (400, 400)) (Some (400, 0))
          (Some (0, 300)) (Some (200, 300)) (Some (200, 0)),
        DrawImageTriangle Loader1_canvas (Some (0, 0)) (Some (0, 400)) (Some (400, 0))
          (Some (0, 0)) (Some (0, 300)) (Some (200, 0))]"
    using t [THEN conjunct1]
    by (simp add: getTriangles_corner_point_mesh coords_corner_point_mesh co2_corner_small z
        js_lookup_def js_nth_def)
  have n: "warpImage sample_triangulate Loader1_canvas corner_point_mesh small_mesh None ! 2 =
        DrawImageTriangle Loader1_canvas (Some (0, 0)) (Some (0, 400)) (Some (400, 0))
          (Some (0, 0)) (Some (0, 300)) (Some (200, 0))"
    using t [THEN conjunct2, THEN conjunct2, THEN conjunct1] s
    by (simp add: coords_corner_point_mesh co2_corner_small numeral_2_eq_2)
  have e: "warpImage other_triangulate Loader1_canvas corner_point_mesh small_mesh None =
     warpImage sample_triangulate Loader1_canvas corner_point_mesh small_mesh None"
    using t [THEN conjunct2, THEN conjunct2, THEN conjunct2] s s' by simp
  show ?thesis
    by (intro conjI s s' d w n e)
qed

section \<open>Rendering and point counts\<close>

lemma warp_starts:
  "morphAnim (warp this) = Some (next_handle this)
   \<and> running (warp this) = running (stopAnim this) @ [next_handle this]
   \<and> state (warp this) = state this"
  by (simp add: warp_def Let_def ud_animate_def stopAnim_def cancel_def split: option.splits)








section \<open>Animations\<close>

lemma idle_or_single_cancel: "idle_or_single this \<Longrightarrow> morphAnim this = Some a \<Longrightarrow> running (cancel a this) = []"
  by (auto simp: idle_or_single_def cancel_def)

lemma running_stopAnim: "idle_or_single this \<Longrightarrow> running (stopAnim this) = []"
  by (auto simp: idle_or_single_def stopAnim_def cancel_def split: option.splits)

lemma morphAnim_stopAnim: "morphAnim (stopAnim this) = morphAnim this"
  by (simp add: stopAnim_def cancel_def split: option.splits)

lemma idle_or_single_stopAnim: "idle_or_single this \<Longrightarrow> idle_or_single (stopAnim this)"
  by (simp add: idle_or_single_def running_stopAnim morphAnim_stopAnim split: option.splits)

lemma idle_or_single_state_update:
  "idle_or_single (this\<lparr>state := s\<rparr>) = idle_or_single this"
  by (simp add: idle_or_single_def split: option.splits)

lemma idle_or_single_onSelected: "idle_or_single this \<Longrightarrow> idle_or_single (onSelected i this)"
  by (simp add: onSelected_def idle_or_single_state_update idle_or_single_stopAnim)

lemma idle_or_single_onAdded: "idle_or_single (onAdded this) = idle_or_single this"
  by (simp add: onAdded_def Let_def idle_or_single_state_update)

lemma idle_or_single_warp: "idle_or_single this \<Longrightarrow> idle_or_single (warp this)"
  using warp_starts [of this] by (simp add: idle_or_single_def running_stopAnim)

lemma idle_or_single_step: "idle_or_single this \<Longrightarrow> idle_or_single (step e this)"
proof (cases e)
  case (AddPoint m c)
  then show "idle_or_single this \<Longrightarrow> ?thesis"
    by (cases m)
      (simp_all add: component_addPoint_def Let_def idle_or_single_onSelected
        idle_or_single_onAdded idle_or_single_state_update)
next
  case (Drag m i pos)
  then show "idle_or_single this \<Longrightarrow> ?thesis"
    by (cases m)
      (simp_all add: with_model_def idle_or_single_state_update split: sum.splits)
next
  case (DragEnd m i)
  then show "idle_or_single this \<Longrightarrow> ?thesis"
    by (auto simp: callbackDragEnd_def Let_def onDeleted_def idle_or_single_state_update
        split: option.splits)
next
  case (AnimationEnded a)
  then show "idle_or_single this \<Longrightarrow> ?thesis"
    by (auto simp: idle_or_single_def animation_ended_def split: option.splits if_splits)
qed (simp_all add: onDeleted_def clear_def idle_or_single_state_update idle_or_single_warp
    idle_or_single_stopAnim idle_or_single_onSelected callbackDragStart_def)

lemma idle_or_single_trace: "idle_or_single this \<Longrightarrow> list_all idle_or_single (trace es this)"
  by (induction es arbitrary: this) (simp_all add: idle_or_single_step)

lemma idle_or_single_initial_app: "idle_or_single initial_app"
  by (simp add: idle_or_single_def initial_app_def start_app_def)

lemma idle_or_single_length: "idle_or_single this \<Longrightarrow> length (running this) \<le> 1"
  by (auto simp: idle_or_single_def split: option.splits)

lemma stopAnim_idem: "stopAnim (stopAnim this) = stopAnim this"
  by (simp add: stopAnim_def cancel_def split: option.splits)

lemma stopAnim_idle: "running this = [] \<Longrightarrow> stopAnim this = this"
  by (simp add: stopAnim_def cancel_def split: option.splits)

lemma stopAnim_cancels: "morphAnim this = Some a \<Longrightarrow> a \<notin> set (running (stopAnim this))"
  by (simp add: stopAnim_def cancel_def)

text \<open>
  Claim C9. From a page on which at most the animation held by \<open>morphAnim\<close> is
  scheduled, and so from the page as the script starts it, every state of every sequence
  of operations has at most one scheduled animation. \<open>warp\<close> calls \<open>stopAnim\<close> before it
  starts the new animation: the animation held before is no longer scheduled when the new
  one is appended, and afterwards the new one is the only one. \<open>stopAnim\<close> is idempotent,
  and it changes nothing when no animation is scheduled.
\<close>

theorem one_animation_at_a_time:
  "(idle_or_single this \<longrightarrow> list_all idle_or_single (trace es this))
   \<and> list_all idle_or_single (trace es initial_app)
   \<and> (idle_or_single this \<longrightarrow> length (running this) \<le> 1)
   \<and> running (warp this) = running (stopAnim this) @ [next_handle this]
   \<and> (morphAnim this = Some a \<longrightarrow> a \<notin> set (running (stopAnim this)))
   \<and> (idle_or_single this \<longrightarrow>
        running (stopAnim this) = [] \<and> running (warp this) = [next_handle this]
        \<and> morphAnim (warp this) = Some (next_handle this))
   \<and> stopAnim (stopAnim this) = stopAnim this
   \<and> (running this = [] \<longrightarrow> stopAnim this = this)"
  using idle_or_single_trace [of this es] idle_or_single_trace [OF idle_or_single_initial_app, of es]
    idle_or_single_length [of this] warp_starts [of this] stopAnim_cancels [of this a]
    running_stopAnim [of this] stopAnim_idem [of this] stopAnim_idle [of this]
  by simp

theorem one_animation_at_a_time_witness:
  "idle_or_single initial_app
   \<and> list_all idle_or_single (trace [Morph, Morph, AnimationEnded 1, StopAnim, Morph] initial_app)
   \<and> map running (trace [Morph, Morph, AnimationEnded 1, StopAnim, Morph] initial_app) =
       [[0], [1], [], [], [2]]
   \<and> morphAnim (warp initial_app) = Some 0
   \<and> 0 \<notin> set (running (stopAnim (warp initial_app)))
   \<and> running (warp (warp initial_app)) = [1]
   \<and> running initial_app = []
   \<and> stopAnim initial_app = initial_app"
proof -
  have i: "idle_or_single initial_app"
    by (simp add: idle_or_single_def initial_app_def start_app_def)
  have r: "running initial_app = []" "morphAnim initial_app = None" "next_handle initial_app = 0"
    by (simp_all add: initial_app_def start_app_def)
  have t: "map running (trace [Morph, Morph, AnimationEnded 1, StopAnim, Morph] initial_app) =
       [[0], [1], [], [], [2]]"
    by (simp add: warp_def Let_def ud_animate_def stopAnim_def cancel_def animation_ended_def r)
  have w: "morphAnim (warp initial_app) = Some 0" "running (warp (warp initial_app)) = [1]"
    by (simp_all add: warp_def Let_def ud_animate_def stopAnim_def cancel_def r)
  show ?thesis
    using i r t w
      one_animation_at_a_time
        [of initial_app "[Morph, Morph, AnimationEnded 1, StopAnim, Morph]" 0]
      one_animation_at_a_time [of "warp initial_app" "[]" 0]
    by simp
qed

end
